theory Spec2Isabelle
  imports Main "HOL-Library.Word" "HOL-Library.Signed_Division"
begin

section \<open>Waiting for a state change: builder/amazon/common/state.go\<close>

text \<open>
  A shallow embedding of the polling loop \<^verbatim>\<open>WaitForState\<close>, of the two policy
  functions \<^verbatim>\<open>TimeoutSeconds\<close> and \<^verbatim>\<open>SleepSeconds\<close>, and of the probe built by
  \<^verbatim>\<open>ImportImageRefreshFunc\<close>.

  Go's \<^verbatim>\<open>int\<close> is taken as the 64-bit two's complement integer of the usual
  build targets: addition and multiplication wrap around, comparison is signed,
  division truncates towards zero and panics on a zero divisor.
\<close>

subsection \<open>Machine integers\<close>

type_synonym int64 = "64 word"

text \<open>Go's \<^verbatim>\<open>a / b\<close> for a non-zero \<^verbatim>\<open>b\<close>: the quotient truncated towards zero,
  wrapped into 64 bits (only the most negative value divided by -1 wraps).\<close>

definition go_div :: "int64 \<Rightarrow> int64 \<Rightarrow> int64" where
  "go_div a b = word_of_int (sint a sdiv sint b)"

subsection \<open>The environment and \<^verbatim>\<open>strconv.Atoi\<close>\<close>

text \<open>\<^verbatim>\<open>os.Getenv\<close> returns the empty string for a variable that is not set.\<close>

type_synonym environ = "string \<rightharpoonup> string"

definition Getenv :: "environ \<Rightarrow> string \<Rightarrow> string" where
  "Getenv env k = (case env k of None \<Rightarrow> [] | Some v \<Rightarrow> v)"

text \<open>
  \<^verbatim>\<open>strconv.Atoi\<close> of the Go standard library, base 10: an optional sign, then at
  least one decimal digit and nothing else; a value outside the range of a 64-bit
  \<^verbatim>\<open>int\<close> is an error as well. \<open>None\<close> stands for a non-nil error.
\<close>

definition isDigit :: "char \<Rightarrow> bool" where
  "isDigit ch = (48 \<le> (of_char ch :: nat) \<and> (of_char ch :: nat) \<le> 57)"

fun digits :: "string \<Rightarrow> int \<Rightarrow> int option" where
  "digits [] n = Some n"
| "digits (ch # s) n =
     (if isDigit ch then digits s (n * 10 + (int (of_char ch) - 48)) else None)"

definition Atoi :: "string \<Rightarrow> int64 option" where
  "Atoi s0 =
     (case s0 of
        [] \<Rightarrow> None
      | c # rest \<Rightarrow>
          let s = (if c = CHR ''-'' \<or> c = CHR ''+'' then rest else s0) in
          if s = [] then None
          else (case digits s 0 of
                  None \<Rightarrow> None
                | Some n \<Rightarrow>
                    let v = (if c = CHR ''-'' then - n else n) in
                    if - (2 ^ 63) \<le> v \<and> v < 2 ^ 63 then Some (word_of_int v) else None))"

subsection \<open>Log lines\<close>

text \<open>A call \<^verbatim>\<open>log.Printf(format, args...)\<close> is recorded with its format string and
  its arguments; the rendering of the line is not modelled.\<close>

datatype fmt_arg = ArgS string | ArgD int64

datatype logline = Printf string "fmt_arg list"

definition apostrophe :: char where
  "apostrophe = CHR 0x27"

subsection \<open>Policy: \<^verbatim>\<open>TimeoutSeconds\<close> and \<^verbatim>\<open>SleepSeconds\<close>\<close>

text \<open>Both functions return the number of seconds together with the log lines
  they print, in order.\<close>

definition TimeoutSeconds :: "environ \<Rightarrow> int64 \<times> logline list" where
  "TimeoutSeconds env =
     (let seconds = 300;
          override = Getenv env ''AWS_TIMEOUT_SECONDS'';
          (seconds, lg) =
            (if override \<noteq> [] then
               (case Atoi override of
                  None \<Rightarrow>
                    (seconds,
                     [Printf (''Invalid timeout seconds '' @ [apostrophe] @ ''%s''
                                @ [apostrophe] @ '', using default'') [ArgS override]])
                | Some n \<Rightarrow> (n, []))
             else (seconds, []))
      in (seconds,
          lg @ [Printf ''Allowing %ds to complete (change with AWS_TIMEOUT_SECONDS)''
                  [ArgD seconds]]))"

definition SleepSeconds :: "environ \<Rightarrow> int64 \<times> logline list" where
  "SleepSeconds env =
     (let seconds = 2;
          override = Getenv env ''AWS_POLL_DELAY_SECONDS'';
          (seconds, lg) =
            (if override \<noteq> [] then
               (case Atoi override of
                  None \<Rightarrow>
                    (seconds,
                     [Printf (''Invalid sleep seconds '' @ [apostrophe] @ ''%s''
                                @ [apostrophe] @ '', using default'') [ArgS override]])
                | Some n \<Rightarrow> (n, []))
             else (seconds, []))
      in (seconds,
          lg @ [Printf ''Using %ds as polling delay (change with AWS_POLL_DELAY_SECONDS)''
                  [ArgD seconds]]))"

subsection \<open>The request and what a run does\<close>

text \<open>
  A Go call either returns or panics. \<^verbatim>\<open>StateRefreshFunc\<close> is a closure over
  external state, so the model gives the outcome of its \<open>n\<close>-th call (counted
  from 0): the triple \<^verbatim>\<open>(result, state, err)\<close>, with \<open>None\<close> for \<^verbatim>\<open>nil\<close>.
\<close>

datatype 'a go = Panic string | Return 'a

type_synonym ('r, 'e) probe_result = "'r option \<times> string \<times> 'e option"

text \<open>
  Modelled from the spec: the cancellation handle \<^verbatim>\<open>multistep.StateBag\<close> and its key
  \<^verbatim>\<open>multistep.StateCancelled\<close> are declared outside this file. The spec calls the
  handle a read-checkable shared signal holding a "cancelled" flag, which may be
  absent. \<open>StepState\<close> is \<open>None\<close> for a nil handle; otherwise it gives, for the
  \<open>n\<close>-th iteration of the loop, whether \<^verbatim>\<open>GetOk(multistep.StateCancelled)\<close> reports
  the flag as set at that moment.
\<close>

record ('r, 'e) StateChangeConf =
  Pending :: "string list"
  Refresh :: "nat \<Rightarrow> ('r, 'e) probe_result go"
  StepState :: "(nat \<Rightarrow> bool) option"
  Target :: string

text \<open>
  An error value is either one this function creates (\<^verbatim>\<open>errors.New\<close>,
  \<^verbatim>\<open>fmt.Errorf\<close>: a fresh value carrying its message) or the value a probe
  returned, handed on as it is.
\<close>

datatype 'e error = New string | ProbeError 'e

text \<open>The effects of a run, in order.\<close>

datatype ('r, 'e) event =
    Log logline
  | RefreshCall "('r, 'e) probe_result"
  | GetOkCall bool
  | Sleep int64

type_synonym ('r, 'e) outcome = "('r option \<times> 'e error option) go \<times> ('r, 'e) event list"

record ('r, 'e) loop_state =
  notfoundTick :: int64
  calls :: nat
  trace :: "('r, 'e) event list"

datatype ('s, 'a) iteration = Continue 's | Done 'a

text \<open>The search through \<^verbatim>\<open>conf.Pending\<close>.\<close>

fun found :: "string \<Rightarrow> string list \<Rightarrow> bool" where
  "found currentState [] = False"
| "found currentState (allowed # rest) =
     (if currentState = allowed then True else found currentState rest)"

definition unexpected_state :: "string \<Rightarrow> string \<Rightarrow> string" where
  "unexpected_state currentState target =
     ''unexpected state '' @ [apostrophe] @ currentState @ [apostrophe]
       @ '', wanted target '' @ [apostrophe] @ target @ [apostrophe]"

definition couldnt_find :: string where
  "couldnt_find = ''couldn'' @ [apostrophe] @ ''t find resource''"

text \<open>One pass through the body of the \<^verbatim>\<open>for\<close> loop.\<close>

definition body ::
  "('r, 'e) StateChangeConf \<Rightarrow> int64 \<Rightarrow> int64 \<Rightarrow> ('r, 'e) loop_state
     \<Rightarrow> (('r, 'e) loop_state, ('r, 'e) outcome) iteration" where
  "body conf sleepSeconds maxTicks s =
     (case Refresh conf (calls s) of
        Panic m \<Rightarrow> Done (Panic m, trace s)
      | Return (i, currentState, err) \<Rightarrow>
          let tr = trace s @ [RefreshCall (i, currentState, err)] in
          (case err of
             Some e \<Rightarrow> Done (Return (i, Some (ProbeError e)), tr)
           | None \<Rightarrow>
               (case i of
                  None \<Rightarrow>
                    let tick = notfoundTick s + 1 in
                    if maxTicks <s tick
                    then Done (Return (None, Some (New couldnt_find)), tr)
                    else Continue \<lparr>notfoundTick = tick, calls = calls s + 1,
                           trace = tr @ [Sleep (sleepSeconds * 1000000000)]\<rparr>
                | Some r \<Rightarrow>
                    if currentState = Target conf then Done (Return (i, None), tr)
                    else
                      let (ok, tr) =
                            (case StepState conf of
                               None \<Rightarrow> (False, tr)
                             | Some cancelled \<Rightarrow>
                                 (cancelled (calls s), tr @ [GetOkCall (cancelled (calls s))]))
                      in if ok then Done (Return (None, Some (New ''interrupted'')), tr)
                         else if \<not> found currentState (Pending conf)
                         then Done (Return (None,
                                 Some (New (unexpected_state currentState (Target conf)))), tr)
                         else Continue \<lparr>notfoundTick = 0, calls = calls s + 1,
                                trace = tr @ [Sleep (sleepSeconds * 1000000000)]\<rparr>)))"

text \<open>The \<^verbatim>\<open>for\<close> loop: it may run forever, and then its value is \<open>None\<close>.\<close>

partial_function (option) loop ::
  "('r, 'e) StateChangeConf \<Rightarrow> int64 \<Rightarrow> int64 \<Rightarrow> ('r, 'e) loop_state
     \<Rightarrow> ('r, 'e) outcome option" where
  "loop conf sleepSeconds maxTicks s =
     (case body conf sleepSeconds maxTicks s of
        Done out \<Rightarrow> Some out
      | Continue s' \<Rightarrow> loop conf sleepSeconds maxTicks s')"

declare loop.simps [code]

definition WaitForState ::
  "environ \<Rightarrow> ('r, 'e) StateChangeConf \<Rightarrow> ('r, 'e) outcome option" where
  "WaitForState env conf =
     (let tr = [Log (Printf ''Waiting for state to become: %s'' [ArgS (Target conf)])];
          (sleepSeconds, lg) = SleepSeconds env;
          tr = tr @ map Log lg;
          (timeoutSeconds, lg) = TimeoutSeconds env;
          tr = tr @ map Log lg
      in if sleepSeconds = 0
         then Some (Panic ''runtime error: integer divide by zero'', tr)
         else
           let maxTicks = go_div timeoutSeconds sleepSeconds + 1
           in loop conf sleepSeconds maxTicks
                \<lparr>notfoundTick = 0, calls = 0, trace = tr\<rparr>)"

subsection \<open>Observing a run\<close>

text \<open>
  \<open>iterate conf sleepSeconds maxTicks k s\<close> runs at most \<open>k\<close> passes of the loop from
  the state \<open>s\<close>: it is the state in which pass \<open>k\<close> (counted from 0) begins, or
  the outcome if the loop has returned before.
\<close>

fun iterate ::
  "('r, 'e) StateChangeConf \<Rightarrow> int64 \<Rightarrow> int64 \<Rightarrow> nat \<Rightarrow> ('r, 'e) loop_state
     \<Rightarrow> (('r, 'e) loop_state, ('r, 'e) outcome) iteration" where
  "iterate conf sleepSeconds maxTicks 0 s = Continue s"
| "iterate conf sleepSeconds maxTicks (Suc k) s =
     (case body conf sleepSeconds maxTicks s of
        Done out \<Rightarrow> Done out
      | Continue s' \<Rightarrow> iterate conf sleepSeconds maxTicks k s')"

text \<open>The values \<^verbatim>\<open>WaitForState\<close> computes before the loop, and the state in
  which it enters the loop.\<close>

definition maxTicks :: "environ \<Rightarrow> int64" where
  "maxTicks env = go_div (fst (TimeoutSeconds env)) (fst (SleepSeconds env)) + 1"

definition start :: "environ \<Rightarrow> ('r, 'e) StateChangeConf \<Rightarrow> ('r, 'e) loop_state" where
  "start env conf =
     \<lparr>notfoundTick = 0, calls = 0,
      trace = [Log (Printf ''Waiting for state to become: %s'' [ArgS (Target conf)])]
                @ map Log (snd (SleepSeconds env)) @ map Log (snd (TimeoutSeconds env))\<rparr>"

text \<open>\<open>enters env conf k s\<close>: the run of \<^verbatim>\<open>WaitForState\<close> gets to pass \<open>k\<close> of its
  loop (counted from 0) and begins it in the state \<open>s\<close>.\<close>

definition enters ::
  "environ \<Rightarrow> ('r, 'e) StateChangeConf \<Rightarrow> nat \<Rightarrow> ('r, 'e) loop_state \<Rightarrow> bool" where
  "enters env conf k s \<longleftrightarrow>
     fst (SleepSeconds env) \<noteq> 0 \<and>
     iterate conf (fst (SleepSeconds env)) (maxTicks env) k (start env conf) = Continue s"

fun isRefreshCall :: "('r, 'e) event \<Rightarrow> bool" where
  "isRefreshCall (RefreshCall _) = True"
| "isRefreshCall _ = False"

fun isSleep :: "('r, 'e) event \<Rightarrow> bool" where
  "isSleep (Sleep _) = True"
| "isSleep _ = False"

definition polls :: "('r, 'e) event list \<Rightarrow> nat" where
  "polls tr = length (filter isRefreshCall tr)"

definition sleeps :: "('r, 'e) event list \<Rightarrow> nat" where
  "sleeps tr = length (filter isSleep tr)"

subsection \<open>The probe of \<^verbatim>\<open>ImportImageRefreshFunc\<close>\<close>

text \<open>
  What the probe looks at in the answer of \<^verbatim>\<open>conn.DescribeImportImageTasks\<close>: of an
  error, its message, its code when it is an \<^verbatim>\<open>awserr.Error\<close>, and the value of
  \<^verbatim>\<open>Temporary()\<close> when it is a \<^verbatim>\<open>net.Error\<close>; of a response, the list of task
  pointers and the status pointer of a task.
\<close>

record api_error =
  ErrorMessage :: string
  awsCode :: "string option"
  netTemporary :: "bool option"

record ImportImageTask =
  Status :: "string option"

record DescribeImportImageTasksOutput =
  ImportImageTasks :: "ImportImageTask option list"

type_synonym describe_answer = "DescribeImportImageTasksOutput option \<times> api_error option"

text \<open>The connection: the answer to the \<open>n\<close>-th query for the given task ids.\<close>

type_synonym ec2_conn = "string list \<Rightarrow> nat \<Rightarrow> describe_answer"

definition HasPrefix :: "string \<Rightarrow> string \<Rightarrow> bool" where
  "HasPrefix s p = (length p \<le> length s \<and> take (length p) s = p)"

definition isTransientNetworkError :: "api_error \<Rightarrow> bool" where
  "isTransientNetworkError err =
     (case netTemporary err of Some temporary \<Rightarrow> temporary | None \<Rightarrow> False)"

definition nil_dereference :: string where
  "nil_dereference = ''runtime error: invalid memory address or nil pointer dereference''"

text \<open>One call of the closure, on the answer of the query: the lines it logs and
  what it returns.\<close>

definition ImportImageRefresh ::
  "describe_answer \<Rightarrow> logline list \<times> (ImportImageTask, api_error) probe_result go" where
  "ImportImageRefresh answer =
     (let (resp, err) = answer;
          (resp, failed) =
            (case err of
               None \<Rightarrow> (resp, None)
             | Some e \<Rightarrow>
                 if (case awsCode e of
                       Some code \<Rightarrow> HasPrefix code ''InvalidConversionTaskId''
                     | None \<Rightarrow> False)
                 then (None, None)
                 else if isTransientNetworkError e then (None, None)
                 else (resp, Some e))
      in case failed of
           Some e \<Rightarrow>
             ([Printf ''Error on ImportImageRefresh: %s'' [ArgS (ErrorMessage e)]],
              Return (None, [], Some e))
         | None \<Rightarrow>
             ([],
              case resp of
                None \<Rightarrow> Return (None, [], None)
              | Some out \<Rightarrow>
                  (case ImportImageTasks out of
                     [] \<Rightarrow> Return (None, [], None)
                   | i # _ \<Rightarrow>
                       (case i of
                          None \<Rightarrow> Panic nil_dereference
                        | Some task \<Rightarrow>
                            (case Status task of
                               None \<Rightarrow> Panic nil_dereference
                             | Some status \<Rightarrow> Return (Some task, status, None))))))"

definition ImportImageRefreshFunc ::
  "ec2_conn \<Rightarrow> string \<Rightarrow> nat \<Rightarrow> (ImportImageTask, api_error) probe_result go" where
  "ImportImageRefreshFunc conn importTaskId =
     (\<lambda>n. snd (ImportImageRefresh (conn [importTaskId] n)))"

text \<open>Whether pass \<open>k\<close> of the loop would observe the cancellation flag as set.\<close>

definition cancelled_at :: "('r, 'e) StateChangeConf \<Rightarrow> nat \<Rightarrow> bool" where
  "cancelled_at conf k = (case StepState conf of None \<Rightarrow> False | Some cancelled \<Rightarrow> cancelled k)"

subsection \<open>Example requests\<close>

text \<open>What a run logs before its first poll when neither setting is overridden.\<close>

definition default_trace :: "string \<Rightarrow> ('r, 'e) event list" where
  "default_trace target =
     [Log (Printf ''Waiting for state to become: %s'' [ArgS target]),
      Log (Printf ''Using %ds as polling delay (change with AWS_POLL_DELAY_SECONDS)'' [ArgD 2]),
      Log (Printf ''Allowing %ds to complete (change with AWS_TIMEOUT_SECONDS)'' [ArgD 300])]"

text \<open>A probe that finds the resource pending once and then fails.\<close>

definition error_conf :: "(string, string) StateChangeConf" where
  "error_conf =
     \<lparr>Pending = [''pending''],
      Refresh = (\<lambda>n. if n = 0 then Return (Some ''ami-1'', ''pending'', None)
                     else Return (None, [], Some ''RequestLimitExceeded'')),
      StepState = None,
      Target = ''available''\<rparr>"

text \<open>A resource found in a state that is neither the target nor pending.\<close>

definition retired_conf :: "(string, string) StateChangeConf" where
  "retired_conf =
     \<lparr>Pending = [''pending''],
      Refresh = (\<lambda>n. Return (Some ''i-1'', ''terminated'', None)),
      StepState = Some (\<lambda>n. False),
      Target = ''running''\<rparr>"

text \<open>The target is also listed as pending, the flag is set, and the resource is
  at the target on the first poll.\<close>

definition ready_conf :: "(string, string) StateChangeConf" where
  "ready_conf =
     \<lparr>Pending = [''pending'', ''available''],
      Refresh = (\<lambda>n. Return (Some ''ami-1'', ''available'', None)),
      StepState = Some (\<lambda>n. True),
      Target = ''available''\<rparr>"

text \<open>The flag is set from the start; the resource is absent on the first poll and
  pending from then on.\<close>

definition cancel_conf :: "(string, string) StateChangeConf" where
  "cancel_conf =
     \<lparr>Pending = [''pending''],
      Refresh = (\<lambda>n. if n = 0 then Return (None, [], None)
                     else Return (Some ''ami-1'', ''pending'', None)),
      StepState = Some (\<lambda>n. True),
      Target = ''available''\<rparr>"

text \<open>A resource that never appears.\<close>

definition never_conf :: "(string, string) StateChangeConf" where
  "never_conf =
     \<lparr>Pending = [''pending''],
      Refresh = (\<lambda>n. Return (None, [], None)),
      StepState = None,
      Target = ''available''\<rparr>"

text \<open>Settings under which the budget of not-found polls is the largest \<^verbatim>\<open>int\<close>.\<close>

definition huge_timeout_env :: environ where
  "huge_timeout_env =
     [''AWS_TIMEOUT_SECONDS'' \<mapsto> ''9223372036854775806'', ''AWS_POLL_DELAY_SECONDS'' \<mapsto> ''1'']"

text \<open>Pending once, then at the target, with the flag set throughout.\<close>

definition pending_cancelled_conf :: "(string, string) StateChangeConf" where
  "pending_cancelled_conf =
     \<lparr>Pending = [''pending''],
      Refresh = (\<lambda>n. if n = 0 then Return (Some ''ami-1'', ''pending'', None)
                     else Return (Some ''ami-1'', ''available'', None)),
      StepState = Some (\<lambda>n. True),
      Target = ''available''\<rparr>"

text \<open>Pending twice, then at the target; the handle is present and the flag is
  never set.\<close>

definition pending_conf :: "(string, string) StateChangeConf" where
  "pending_conf =
     \<lparr>Pending = [''pending''],
      Refresh = (\<lambda>n. if n < 2 then Return (Some ''ami-1'', ''pending'', None)
                     else Return (Some ''ami-1'', ''available'', None)),
      StepState = Some (\<lambda>n. False),
      Target = ''available''\<rparr>"

text \<open>Settings that give a budget of two not-found polls, and what a run logs
  under them before its first poll.\<close>

definition small_budget_env :: environ where
  "small_budget_env = [''AWS_TIMEOUT_SECONDS'' \<mapsto> ''2'', ''AWS_POLL_DELAY_SECONDS'' \<mapsto> ''2'']"

definition small_budget_trace :: "string \<Rightarrow> ('r, 'e) event list" where
  "small_budget_trace target =
     [Log (Printf ''Waiting for state to become: %s'' [ArgS target]),
      Log (Printf ''Using %ds as polling delay (change with AWS_POLL_DELAY_SECONDS)'' [ArgD 2]),
      Log (Printf ''Allowing %ds to complete (change with AWS_TIMEOUT_SECONDS)'' [ArgD 2])]"

text \<open>A resource that is absent, then found pending once, then absent for good.\<close>

definition flapping_conf :: "(string, string) StateChangeConf" where
  "flapping_conf =
     \<lparr>Pending = [''pending''],
      Refresh = (\<lambda>n. if n = 1 then Return (Some ''ami-1'', ''pending'', None)
                     else Return (None, [], None)),
      StepState = None,
      Target = ''available''\<rparr>"

text \<open>A probe that returns a resource together with an error.\<close>

definition error_with_resource_conf :: "(string, string) StateChangeConf" where
  "error_with_resource_conf =
     \<lparr>Pending = [''pending''],
      Refresh = (\<lambda>n. Return (Some ''ami-1'', ''failed'', Some ''InternalError'')),
      StepState = None,
      Target = ''available''\<rparr>"

text \<open>Environments that override one of the two settings.\<close>

definition poll_delay_env :: "string \<Rightarrow> environ" where
  "poll_delay_env v = [''AWS_POLL_DELAY_SECONDS'' \<mapsto> v]"

definition timeout_env :: "string \<Rightarrow> environ" where
  "timeout_env v = [''AWS_TIMEOUT_SECONDS'' \<mapsto> v]"

text \<open>The errors the probe of \<^verbatim>\<open>ImportImageRefreshFunc\<close> is claimed to turn into
  "not found", in the claim's words: an AWS error whose code begins with
  \<^verbatim>\<open>InvalidConversionTaskId\<close>, or a transient network error, that is a \<^verbatim>\<open>net.Error\<close>
  whose \<^verbatim>\<open>Temporary()\<close> is true. A network error that is not temporary, and an error
  that is no network error at all, are not of this kind.\<close>

definition absorbed :: "api_error \<Rightarrow> bool" where
  "absorbed e \<longleftrightarrow>
     (\<exists>rest. awsCode e = Some (''InvalidConversionTaskId'' @ rest)) \<or> netTemporary e = Some True"

text \<open>Four errors of the query, a connection that answers with three of them in
  turn, and a wait on an import task over that connection.\<close>

definition malformed_id_error :: api_error where
  "malformed_id_error =
     \<lparr>ErrorMessage = ''InvalidConversionTaskId.Malformed: status code: 400'',
      awsCode = Some ''InvalidConversionTaskId.Malformed'',
      netTemporary = None\<rparr>"

definition timeout_error :: api_error where
  "timeout_error =
     \<lparr>ErrorMessage = ''dial tcp: i/o timeout'', awsCode = None, netTemporary = Some True\<rparr>"

definition denied_error :: api_error where
  "denied_error =
     \<lparr>ErrorMessage = ''UnauthorizedOperation: status code: 403'',
      awsCode = Some ''UnauthorizedOperation'',
      netTemporary = None\<rparr>"

definition permanent_net_error :: api_error where
  "permanent_net_error =
     \<lparr>ErrorMessage = ''dial tcp: lookup ec2.amazonaws.com: no such host'',
      awsCode = None,
      netTemporary = Some False\<rparr>"

definition failing_conn :: ec2_conn where
  "failing_conn ids n =
     (if n = 0 then (None, Some malformed_id_error)
      else if n = 1 then (None, Some timeout_error)
      else (None, Some permanent_net_error))"

definition import_conf :: "(ImportImageTask, api_error) StateChangeConf" where
  "import_conf =
     \<lparr>Pending = [''active''],
      Refresh = ImportImageRefreshFunc failing_conn ''import-ami-1'',
      StepState = None,
      Target = ''completed''\<rparr>"

section \<open>Properties\<close>

subsection \<open>The loop and its passes\<close>

lemma found_iff: "found currentState ps \<longleftrightarrow> currentState \<in> set ps"
  by (induction ps) auto

lemma loop_Done: "body conf sl m s = Done out \<Longrightarrow> loop conf sl m s = Some out"
  by (subst loop.simps) simp

lemma loop_Continue:
  "body conf sl m s = Continue s' \<Longrightarrow> loop conf sl m s = loop conf sl m s'"
  by (subst loop.simps) simp

lemma iterate_Suc_end:
  "iterate conf sl m (Suc k) s =
     (case iterate conf sl m k s of Done out \<Rightarrow> Done out | Continue s' \<Rightarrow> body conf sl m s')"
proof (induction k arbitrary: s)
  case 0
  show ?case by (simp split: iteration.splits)
next
  case (Suc k)
  show ?case
  proof (cases "body conf sl m s")
    case (Continue s')
    with Suc.IH [of s'] show ?thesis by simp
  next
    case (Done out)
    then show ?thesis by simp
  qed
qed

lemma loop_iterate:
  "iterate conf sl m k s = Continue s' \<Longrightarrow> loop conf sl m s = loop conf sl m s'"
  by (induction k arbitrary: s) (auto split: iteration.splits simp: loop_Continue)

text \<open>A loop that returns has done so in some pass.\<close>

lemma loop_Some_iterate:
  assumes "loop conf sl m s = Some out"
  shows "\<exists>k s'. iterate conf sl m k s = Continue s' \<and> body conf sl m s' = Done out"
  using assms
proof (induction rule: loop.raw_induct [rotated, consumes 1])
  case (1 loop' conf sl m s out)
  show ?case
  proof (cases "body conf sl m s")
    case (Continue s')
    with 1(2) have "loop' conf sl m s' = Some out" by simp
    from 1(1) [OF this] obtain k s'' where
      "iterate conf sl m k s' = Continue s''" "body conf sl m s'' = Done out" by blast
    with Continue have "iterate conf sl m (Suc k) s = Continue s''" by simp
    with \<open>body conf sl m s'' = Done out\<close> show ?thesis by blast
  next
    case (Done out')
    with 1(2) have "out' = out" by simp
    with Done have "iterate conf sl m 0 s = Continue s \<and> body conf sl m s = Done out" by simp
    then show ?thesis by blast
  qed
qed

lemma WaitForState_loop:
  "fst (SleepSeconds env) \<noteq> 0 \<Longrightarrow>
   WaitForState env conf = loop conf (fst (SleepSeconds env)) (maxTicks env) (start env conf)"
  by (cases "SleepSeconds env"; cases "TimeoutSeconds env")
    (simp add: WaitForState_def maxTicks_def start_def)

lemma WaitForState_panic:
  "fst (SleepSeconds env) = 0 \<Longrightarrow>
   WaitForState env conf =
     Some (Panic ''runtime error: integer divide by zero'', trace (start env conf))"
  by (cases "SleepSeconds env"; cases "TimeoutSeconds env")
    (simp add: WaitForState_def start_def)

lemma enters_0: "fst (SleepSeconds env) \<noteq> 0 \<Longrightarrow> enters env conf 0 (start env conf)"
  by (simp add: enters_def)

lemma enters_Continue:
  "enters env conf k s \<Longrightarrow> body conf (fst (SleepSeconds env)) (maxTicks env) s = Continue s'
   \<Longrightarrow> enters env conf (Suc k) s'"
  unfolding enters_def by (simp only: iterate_Suc_end) simp

lemma enters_Done:
  "enters env conf k s \<Longrightarrow> body conf (fst (SleepSeconds env)) (maxTicks env) s = Done out
   \<Longrightarrow> WaitForState env conf = Some out"
  unfolding enters_def using loop_iterate loop_Done WaitForState_loop by metis

lemma enters_Suc:
  "enters env conf (Suc k) s' \<Longrightarrow>
   \<exists>s. enters env conf k s \<and> body conf (fst (SleepSeconds env)) (maxTicks env) s = Continue s'"
  unfolding enters_def by (simp only: iterate_Suc_end) (auto split: iteration.splits)

lemma WaitForState_Some_enters:
  assumes "fst (SleepSeconds env) \<noteq> 0" and "WaitForState env conf = Some out"
  shows "\<exists>k s. enters env conf k s \<and>
           body conf (fst (SleepSeconds env)) (maxTicks env) s = Done out"
  using loop_Some_iterate [of conf "fst (SleepSeconds env)" "maxTicks env" "start env conf" out]
    assms WaitForState_loop [of env conf]
  by (simp add: enters_def)

lemma body_calls: "body conf sl m s = Continue s' \<Longrightarrow> calls s' = Suc (calls s)"
  by (auto simp: body_def Let_def split: go.splits option.splits if_splits prod.splits)

lemma enters_calls: "enters env conf k s \<Longrightarrow> calls s = k"
proof (induction k arbitrary: s)
  case 0
  then show ?case by (auto simp: enters_def start_def)
next
  case (Suc k)
  from enters_Suc [OF Suc.prems] obtain s0 where
    "enters env conf k s0" "body conf (fst (SleepSeconds env)) (maxTicks env) s0 = Continue s"
    by blast
  with Suc.IH [of s0] body_calls show ?case by metis
qed

subsection \<open>What one pass does, by the answer of the probe\<close>

lemma body_probe_error:
  "Refresh conf (calls s) = Return (i, st, Some e) \<Longrightarrow>
   body conf sl m s = Done (Return (i, Some (ProbeError e)), trace s @ [RefreshCall (i, st, Some e)])"
  by (simp add: body_def)

lemma body_absent:
  "Refresh conf (calls s) = Return (None, st, None) \<Longrightarrow>
   body conf sl m s =
     (if m <s notfoundTick s + 1
      then Done (Return (None, Some (New couldnt_find)), trace s @ [RefreshCall (None, st, None)])
      else Continue \<lparr>notfoundTick = notfoundTick s + 1, calls = calls s + 1,
             trace = trace s @ [RefreshCall (None, st, None), Sleep (sl * 1000000000)]\<rparr>)"
  by (simp add: body_def Let_def)

lemma body_target:
  "Refresh conf (calls s) = Return (Some r, Target conf, None) \<Longrightarrow>
   body conf sl m s =
     Done (Return (Some r, None), trace s @ [RefreshCall (Some r, Target conf, None)])"
  by (simp add: body_def)

lemma body_cancelled:
  "Refresh conf (calls s) = Return (Some r, st, None) \<Longrightarrow> st \<noteq> Target conf \<Longrightarrow>
   cancelled_at conf (calls s) \<Longrightarrow>
   body conf sl m s =
     Done (Return (None, Some (New ''interrupted'')),
           trace s @ [RefreshCall (Some r, st, None), GetOkCall True])"
  by (auto simp: body_def cancelled_at_def split: option.splits)

lemma body_not_cancelled:
  "Refresh conf (calls s) = Return (Some r, st, None) \<Longrightarrow> st \<noteq> Target conf \<Longrightarrow>
   \<not> cancelled_at conf (calls s) \<Longrightarrow>
   body conf sl m s =
     (let tr = trace s @ [RefreshCall (Some r, st, None)]
                 @ (case StepState conf of None \<Rightarrow> [] | Some _ \<Rightarrow> [GetOkCall False])
      in if \<not> found st (Pending conf)
         then Done (Return (None, Some (New (unexpected_state st (Target conf)))), tr)
         else Continue \<lparr>notfoundTick = 0, calls = calls s + 1,
                trace = tr @ [Sleep (sl * 1000000000)]\<rparr>)"
  by (auto simp: body_def cancelled_at_def Let_def split: option.splits)

subsection \<open>The run under the default settings\<close>

lemma SleepSeconds_empty:
  "SleepSeconds Map.empty =
     (2, [Printf ''Using %ds as polling delay (change with AWS_POLL_DELAY_SECONDS)'' [ArgD 2]])"
  by (simp add: SleepSeconds_def Getenv_def)

lemma TimeoutSeconds_empty:
  "TimeoutSeconds Map.empty =
     (300, [Printf ''Allowing %ds to complete (change with AWS_TIMEOUT_SECONDS)'' [ArgD 300]])"
  by (simp add: TimeoutSeconds_def Getenv_def)

lemma maxTicks_empty: "maxTicks Map.empty = 151"
  by (simp add: maxTicks_def SleepSeconds_empty TimeoutSeconds_empty go_div_def
      signed_divide_int_def)

lemma start_empty:
  "start Map.empty conf = \<lparr>notfoundTick = 0, calls = 0, trace = default_trace (Target conf)\<rparr>"
  by (simp add: start_def SleepSeconds_empty TimeoutSeconds_empty default_trace_def)

subsection \<open>Probe errors\<close>

text \<open>
  Claim C3. If the run gets to a pass of the loop in which the probe returns a
  non-nil error, \<^verbatim>\<open>WaitForState\<close> returns in that pass: the error it returns is the
  probe's own value, not wrapped, and after that call of the probe the run makes
  no further call and does not sleep.
\<close>

theorem probe_error_passed_through:
  assumes "enters env conf k s"
    and "Refresh conf k = Return (i, st, Some e)"
  shows "WaitForState env conf =
           Some (Return (i, Some (ProbeError e)), trace s @ [RefreshCall (i, st, Some e)])"
proof -
  from assms(1) have "calls s = k" by (rule enters_calls)
  with assms(2) have
    "body conf (fst (SleepSeconds env)) (maxTicks env) s =
       Done (Return (i, Some (ProbeError e)), trace s @ [RefreshCall (i, st, Some e)])"
    by (simp add: body_probe_error)
  with assms(1) show ?thesis by (rule enters_Done)
qed

theorem probe_error_passed_through_witness:
  "enters Map.empty error_conf 1
     \<lparr>notfoundTick = 0, calls = 1,
      trace = default_trace ''available''
                @ [RefreshCall (Some ''ami-1'', ''pending'', None), Sleep 2000000000]\<rparr>
   \<and> Refresh error_conf 1 = Return (None, [], Some ''RequestLimitExceeded'')
   \<and> WaitForState Map.empty error_conf =
       Some (Return (None, Some (ProbeError ''RequestLimitExceeded'')),
             default_trace ''available''
               @ [RefreshCall (Some ''ami-1'', ''pending'', None), Sleep 2000000000,
                  RefreshCall (None, [], Some ''RequestLimitExceeded'')])"
proof -
  have h1: "enters Map.empty error_conf 1
     \<lparr>notfoundTick = 0, calls = 1,
      trace = default_trace ''available''
                @ [RefreshCall (Some ''ami-1'', ''pending'', None), Sleep 2000000000]\<rparr>"
    by (simp add: enters_def SleepSeconds_empty maxTicks_empty start_empty body_def
        error_conf_def)
  have h2: "Refresh error_conf 1 = Return (None, [], Some ''RequestLimitExceeded'')"
    by (simp add: error_conf_def)
  from probe_error_passed_through [OF h1 h2] h1 h2 show ?thesis by simp
qed

subsection \<open>Unexpected states\<close>

text \<open>
  Claim C4. If the run gets to a pass in which the probe returns a non-nil resource
  whose state is neither the target nor one of the pending states, and the
  cancellation flag is not observed as set in that pass, \<^verbatim>\<open>WaitForState\<close> returns in
  that pass with a nil resource and an error whose message names the offending
  state and the wanted target.
\<close>

theorem unexpected_state_fails:
  assumes "enters env conf k s"
    and "Refresh conf k = Return (Some r, st, None)"
    and "st \<noteq> Target conf"
    and "st \<notin> set (Pending conf)"
    and "\<not> cancelled_at conf k"
  shows "WaitForState env conf =
           Some (Return (None,
                   Some (New (''unexpected state '' @ [CHR 0x27] @ st @ [CHR 0x27]
                              @ '', wanted target '' @ [CHR 0x27] @ Target conf @ [CHR 0x27]))),
                 trace s @ [RefreshCall (Some r, st, None)]
                   @ (case StepState conf of None \<Rightarrow> [] | Some _ \<Rightarrow> [GetOkCall False]))"
proof -
  from assms(1) have k: "calls s = k" by (rule enters_calls)
  have "body conf (fst (SleepSeconds env)) (maxTicks env) s =
          Done (Return (None, Some (New (unexpected_state st (Target conf)))),
                trace s @ [RefreshCall (Some r, st, None)]
                  @ (case StepState conf of None \<Rightarrow> [] | Some _ \<Rightarrow> [GetOkCall False]))"
    using assms(2-5) k by (simp add: body_not_cancelled found_iff)
  with assms(1) have "WaitForState env conf = Some (Return (None, Some (New (unexpected_state st (Target conf)))),
                trace s @ [RefreshCall (Some r, st, None)]
                  @ (case StepState conf of None \<Rightarrow> [] | Some _ \<Rightarrow> [GetOkCall False]))"
    by (rule enters_Done)
  then show ?thesis by (simp add: unexpected_state_def apostrophe_def)
qed

theorem unexpected_state_fails_witness:
  "enters Map.empty retired_conf 0
     \<lparr>notfoundTick = 0, calls = 0, trace = default_trace ''running''\<rparr>
   \<and> Refresh retired_conf 0 = Return (Some ''i-1'', ''terminated'', None)
   \<and> ''terminated'' \<noteq> Target retired_conf
   \<and> ''terminated'' \<notin> set (Pending retired_conf)
   \<and> \<not> cancelled_at retired_conf 0
   \<and> WaitForState Map.empty retired_conf =
       Some (Return (None,
               Some (New (''unexpected state '' @ [CHR 0x27] @ ''terminated'' @ [CHR 0x27]
                          @ '', wanted target '' @ [CHR 0x27] @ ''running'' @ [CHR 0x27]))),
             default_trace ''running''
               @ [RefreshCall (Some ''i-1'', ''terminated'', None), GetOkCall False])"
proof -
  have h1: "enters Map.empty retired_conf 0
     \<lparr>notfoundTick = 0, calls = 0, trace = default_trace ''running''\<rparr>"
    by (simp add: enters_def SleepSeconds_empty start_empty retired_conf_def)
  have h2: "Refresh retired_conf 0 = Return (Some ''i-1'', ''terminated'', None)"
    by (simp add: retired_conf_def)
  have h3: "''terminated'' \<noteq> Target retired_conf"
    by (simp add: retired_conf_def)
  have h4: "''terminated'' \<notin> set (Pending retired_conf)"
    by (simp add: retired_conf_def)
  have h5: "\<not> cancelled_at retired_conf 0"
    by (simp add: retired_conf_def cancelled_at_def)
  from unexpected_state_fails [OF h1 h2 h3 h4 h5] h1 h2 h3 h4 h5 show ?thesis
    by (simp add: retired_conf_def)
qed

subsection \<open>Reaching the target\<close>

text \<open>
  Claim C9. If the run gets to a pass in which the probe returns a non-nil resource
  whose state equals the target, \<^verbatim>\<open>WaitForState\<close> returns that resource with a nil
  error in that pass, whatever the pending list and the cancellation flag are: the
  flag is not even read. The witness has the target listed as pending and the flag
  set.
\<close>

theorem target_takes_priority:
  assumes "enters env conf k s"
    and "Refresh conf k = Return (Some r, Target conf, None)"
  shows "WaitForState env conf =
           Some (Return (Some r, None), trace s @ [RefreshCall (Some r, Target conf, None)])"
proof -
  from assms(1) have "calls s = k" by (rule enters_calls)
  with assms(2) have
    "body conf (fst (SleepSeconds env)) (maxTicks env) s =
       Done (Return (Some r, None), trace s @ [RefreshCall (Some r, Target conf, None)])"
    by (simp add: body_target)
  with assms(1) show ?thesis by (rule enters_Done)
qed

theorem target_takes_priority_witness:
  "enters Map.empty ready_conf 0
     \<lparr>notfoundTick = 0, calls = 0, trace = default_trace ''available''\<rparr>
   \<and> Refresh ready_conf 0 = Return (Some ''ami-1'', Target ready_conf, None)
   \<and> Target ready_conf \<in> set (Pending ready_conf)
   \<and> cancelled_at ready_conf 0
   \<and> WaitForState Map.empty ready_conf =
       Some (Return (Some ''ami-1'', None),
             default_trace ''available'' @ [RefreshCall (Some ''ami-1'', ''available'', None)])"
proof -
  have h1: "enters Map.empty ready_conf 0
     \<lparr>notfoundTick = 0, calls = 0, trace = default_trace ''available''\<rparr>"
    by (simp add: enters_def SleepSeconds_empty start_empty ready_conf_def)
  have h2: "Refresh ready_conf 0 = Return (Some ''ami-1'', Target ready_conf, None)"
    by (simp add: ready_conf_def)
  from target_takes_priority [OF h1 h2] h1 h2 show ?thesis
    by (simp add: ready_conf_def cancelled_at_def)
qed

subsection \<open>Cancellation\<close>

lemma body_interrupted:
  assumes "body conf sl m s = Done (Return (i, Some (New ''interrupted'')), tr)"
  shows "i = None \<and>
         (\<exists>r st. Refresh conf (calls s) = Return (Some r, st, None) \<and> st \<noteq> Target conf \<and>
            cancelled_at conf (calls s) \<and>
            tr = trace s @ [RefreshCall (Some r, st, None), GetOkCall True])"
  using assms
  by (auto simp: body_def Let_def cancelled_at_def couldnt_find_def unexpected_state_def
      split: go.splits option.splits if_splits prod.splits)

lemma WaitForState_Return_enters:
  assumes "WaitForState env conf = Some (Return res, tr)"
  shows "\<exists>k s. enters env conf k s \<and>
           body conf (fst (SleepSeconds env)) (maxTicks env) s = Done (Return res, tr)"
proof (cases "fst (SleepSeconds env) = 0")
  case True
  with assms show ?thesis by (simp add: WaitForState_panic)
next
  case False
  from WaitForState_Some_enters [OF False assms] show ?thesis .
qed

text \<open>
  Claim C5. \<^verbatim>\<open>WaitForState\<close> returns the "interrupted" error only from a pass in
  which the probe returned a non-nil resource in a state other than the target and
  the flag was observed as set; in such a pass it does so whether or not the state is
  pending, so the flag is read before the pending list is searched. In a pass in
  which the probe reports the resource as absent the flag is not read: the pass
  either ends the run with the not-found error or goes to sleep, its trace holds
  the probe call and the sleep only, whatever the flag is.
\<close>

theorem interrupted_only_when_present:
  "(\<forall>i tr. WaitForState env conf = Some (Return (i, Some (New ''interrupted'')), tr) \<longrightarrow>
      i = None \<and>
      (\<exists>k s r st. enters env conf k s \<and> Refresh conf k = Return (Some r, st, None) \<and>
         st \<noteq> Target conf \<and> cancelled_at conf k \<and>
         tr = trace s @ [RefreshCall (Some r, st, None), GetOkCall True]))
   \<and> (\<forall>k s r st. enters env conf k s \<and> Refresh conf k = Return (Some r, st, None) \<and>
         st \<noteq> Target conf \<and> cancelled_at conf k \<longrightarrow>
         WaitForState env conf =
           Some (Return (None, Some (New ''interrupted'')),
                 trace s @ [RefreshCall (Some r, st, None), GetOkCall True]))
   \<and> (\<forall>k s st. enters env conf k s \<and> Refresh conf k = Return (None, st, None) \<longrightarrow>
         WaitForState env conf =
           Some (Return (None, Some (New couldnt_find)), trace s @ [RefreshCall (None, st, None)])
         \<or> enters env conf (Suc k)
              \<lparr>notfoundTick = notfoundTick s + 1, calls = Suc k,
               trace = trace s @ [RefreshCall (None, st, None),
                                  Sleep (fst (SleepSeconds env) * 1000000000)]\<rparr>)"
proof (intro conjI allI impI)
  fix i tr
  assume "WaitForState env conf = Some (Return (i, Some (New ''interrupted'')), tr)"
  then obtain k s where e: "enters env conf k s"
    and b: "body conf (fst (SleepSeconds env)) (maxTicks env) s =
              Done (Return (i, Some (New ''interrupted'')), tr)"
    using WaitForState_Return_enters by blast
  from e have "calls s = k" by (rule enters_calls)
  with body_interrupted [OF b] e
  show "i = None" and "\<exists>k s r st. enters env conf k s \<and> Refresh conf k = Return (Some r, st, None) \<and>
         st \<noteq> Target conf \<and> cancelled_at conf k \<and>
         tr = trace s @ [RefreshCall (Some r, st, None), GetOkCall True]"
    by blast+
next
  fix k s r st
  assume a: "enters env conf k s \<and> Refresh conf k = Return (Some r, st, None) \<and>
         st \<noteq> Target conf \<and> cancelled_at conf k"
  then have "calls s = k" by (blast dest: enters_calls)
  with a have "body conf (fst (SleepSeconds env)) (maxTicks env) s =
      Done (Return (None, Some (New ''interrupted'')),
                 trace s @ [RefreshCall (Some r, st, None), GetOkCall True])"
    by (simp add: body_cancelled)
  with a show "WaitForState env conf =
           Some (Return (None, Some (New ''interrupted'')),
                 trace s @ [RefreshCall (Some r, st, None), GetOkCall True])"
    using enters_Done by blast
next
  fix k s st
  assume a: "enters env conf k s \<and> Refresh conf k = Return (None, st, None)"
  then have k: "calls s = k" by (blast dest: enters_calls)
  show "WaitForState env conf =
           Some (Return (None, Some (New couldnt_find)), trace s @ [RefreshCall (None, st, None)])
         \<or> enters env conf (Suc k)
              \<lparr>notfoundTick = notfoundTick s + 1, calls = Suc k,
               trace = trace s @ [RefreshCall (None, st, None),
                                  Sleep (fst (SleepSeconds env) * 1000000000)]\<rparr>"
  proof (cases "maxTicks env <s notfoundTick s + 1")
    case True
    with a k have "body conf (fst (SleepSeconds env)) (maxTicks env) s =
        Done (Return (None, Some (New couldnt_find)), trace s @ [RefreshCall (None, st, None)])"
      by (simp add: body_absent)
    with a show ?thesis using enters_Done by blast
  next
    case False
    with a k have "body conf (fst (SleepSeconds env)) (maxTicks env) s =
        Continue \<lparr>notfoundTick = notfoundTick s + 1, calls = Suc k,
               trace = trace s @ [RefreshCall (None, st, None),
                                  Sleep (fst (SleepSeconds env) * 1000000000)]\<rparr>"
      by (simp add: body_absent)
    with a show ?thesis using enters_Continue by blast
  qed
qed

theorem interrupted_only_when_present_witness:
  "enters Map.empty cancel_conf 0
     \<lparr>notfoundTick = 0, calls = 0, trace = default_trace ''available''\<rparr>
   \<and> Refresh cancel_conf 0 = Return (None, [], None)
   \<and> cancelled_at cancel_conf 0
   \<and> enters Map.empty cancel_conf 1
       \<lparr>notfoundTick = 1, calls = 1,
        trace = default_trace ''available'' @ [RefreshCall (None, [], None), Sleep 2000000000]\<rparr>
   \<and> Refresh cancel_conf 1 = Return (Some ''ami-1'', ''pending'', None)
   \<and> ''pending'' \<noteq> Target cancel_conf
   \<and> cancelled_at cancel_conf 1
   \<and> WaitForState Map.empty cancel_conf =
       Some (Return (None, Some (New ''interrupted'')),
             default_trace ''available''
               @ [RefreshCall (None, [], None), Sleep 2000000000,
                  RefreshCall (Some ''ami-1'', ''pending'', None), GetOkCall True])"
proof -
  have h0: "enters Map.empty cancel_conf 0
     \<lparr>notfoundTick = 0, calls = 0, trace = default_trace ''available''\<rparr>"
    by (simp add: enters_def SleepSeconds_empty start_empty cancel_conf_def)
  have p0: "Refresh cancel_conf 0 = Return (None, [], None)"
    by (simp add: cancel_conf_def)
  have c: "cancelled_at cancel_conf 0" "cancelled_at cancel_conf 1"
    by (simp_all add: cancel_conf_def cancelled_at_def)
  have h1: "enters Map.empty cancel_conf 1
       \<lparr>notfoundTick = 1, calls = 1,
        trace = default_trace ''available'' @ [RefreshCall (None, [], None), Sleep 2000000000]\<rparr>"
    by (simp add: enters_def SleepSeconds_empty maxTicks_empty start_empty body_def
        Let_def word_sless_alt cancel_conf_def)
  have p1: "Refresh cancel_conf 1 = Return (Some ''ami-1'', ''pending'', None)"
    by (simp add: cancel_conf_def)
  have t: "''pending'' \<noteq> Target cancel_conf"
    by (simp add: cancel_conf_def)
  from interrupted_only_when_present [of Map.empty cancel_conf] h1 p1 t c(2)
  have "WaitForState Map.empty cancel_conf =
       Some (Return (None, Some (New ''interrupted'')),
             trace \<lparr>notfoundTick = 1, calls = 1,
        trace = default_trace ''available'' @ [RefreshCall (None, [], None), Sleep 2000000000]\<rparr>
               @ [RefreshCall (Some ''ami-1'', ''pending'', None), GetOkCall True])"
    by blast
  with h0 p0 c h1 p1 t show ?thesis by simp
qed

subsection \<open>A resource that is never found\<close>

lemma sint_bounds: "- (2 ^ 63) \<le> sint (x :: int64)" "sint (x :: int64) < 2 ^ 63"
  using sint_ge [of x] sint_lt [of x] by simp_all

lemma sint_succ: "sint (x :: int64) < 2 ^ 63 - 1 \<Longrightarrow> sint (x + 1) = sint x + 1"
  using sint_bounds [of x] by (simp add: sint_word_ariths signed_take_bit_int_eq_self)

lemma sless_max: "sint (m :: int64) = 2 ^ 63 - 1 \<Longrightarrow> \<not> m <s x"
  using sint_bounds [of x] by (simp add: word_sless_alt)

lemma iterate_calls: "iterate conf sl m k s = Continue s' \<Longrightarrow> calls s' = calls s + k"
proof (induction k arbitrary: s)
  case 0
  then show ?case by simp
next
  case (Suc k)
  then show ?case by (auto split: iteration.splits dest: body_calls)
qed

lemma polls_append [simp]: "polls (xs @ ys) = polls xs + polls ys"
  by (simp add: polls_def)

lemma sleeps_append [simp]: "sleeps (xs @ ys) = sleeps xs + sleeps ys"
  by (simp add: sleeps_def)

lemma polls_start [simp]: "polls (trace (start env conf)) = 0"
  by (simp add: polls_def start_def filter_empty_conv)

lemma sleeps_start [simp]: "sleeps (trace (start env conf)) = 0"
  by (simp add: sleeps_def start_def filter_empty_conv)

lemma absent_streak_returns:
  assumes "\<forall>n\<ge>calls s. \<exists>st. Refresh conf n = Return (None, st, None)"
    and "sint m < 2 ^ 63 - 1"
    and "sint (notfoundTick s) < 2 ^ 63 - 1"
    and "K = nat (sint m - sint (notfoundTick s))"
  shows "\<exists>tr. loop conf sl m s = Some (Return (None, Some (New couldnt_find)), tr) \<and>
           polls tr = polls (trace s) + K + 1 \<and> sleeps tr = sleeps (trace s) + K"
  using assms
proof (induction K arbitrary: s)
  case 0
  from 0(1) obtain st where st: "Refresh conf (calls s) = Return (None, st, None)" by blast
  from 0 have "m <s notfoundTick s + 1" by (simp add: word_sless_alt sint_succ)
  with st have "body conf sl m s =
      Done (Return (None, Some (New couldnt_find)), trace s @ [RefreshCall (None, st, None)])"
    by (simp add: body_absent)
  then have "loop conf sl m s =
      Some (Return (None, Some (New couldnt_find)), trace s @ [RefreshCall (None, st, None)])"
    by (rule loop_Done)
  then show ?case by (simp add: polls_def sleeps_def)
next
  case (Suc K)
  from Suc(2) obtain st where st: "Refresh conf (calls s) = Return (None, st, None)" by blast
  define s' where "s' = \<lparr>notfoundTick = notfoundTick s + 1, calls = calls s + 1,
             trace = trace s @ [RefreshCall (None, st, None), Sleep (sl * 1000000000)]\<rparr>"
  from Suc(3-5) have lt: "sint (notfoundTick s) < sint m" by linarith
  with Suc(3,4) have tick: "sint (notfoundTick s + 1) = sint (notfoundTick s) + 1"
    by (simp add: sint_succ)
  with lt have "\<not> m <s notfoundTick s + 1" by (simp add: word_sless_alt)
  with st have "body conf sl m s = Continue s'"
    by (simp add: body_absent s'_def)
  then have l: "loop conf sl m s = loop conf sl m s'" by (rule loop_Continue)
  have "\<exists>tr. loop conf sl m s' = Some (Return (None, Some (New couldnt_find)), tr) \<and>
           polls tr = polls (trace s') + K + 1 \<and> sleeps tr = sleeps (trace s') + K"
  proof (rule Suc.IH)
    show "\<forall>n\<ge>calls s'. \<exists>st. Refresh conf n = Return (None, st, None)"
      using Suc(2) by (simp add: s'_def)
    show "sint m < 2 ^ 63 - 1" by fact
    show "sint (notfoundTick s') < 2 ^ 63 - 1"
      using tick lt Suc(3) by (simp add: s'_def)
    show "K = nat (sint m - sint (notfoundTick s'))"
      using tick Suc(5) by (simp add: s'_def)
  qed
  with l show ?case by (auto simp: s'_def polls_def sleeps_def)
qed

lemma absent_streak_diverges:
  assumes "\<forall>n\<ge>calls s. \<exists>st. Refresh conf n = Return (None, st, None)"
    and "sint m = 2 ^ 63 - 1"
  shows "loop conf sl m s = None"
proof (rule ccontr)
  assume "loop conf sl m s \<noteq> None"
  then obtain out where "loop conf sl m s = Some out" by blast
  from loop_Some_iterate [OF this] obtain k s' where
    i: "iterate conf sl m k s = Continue s'" and d: "body conf sl m s' = Done out" by blast
  from iterate_calls [OF i] have "calls s \<le> calls s'" by simp
  with assms(1) obtain st where "Refresh conf (calls s') = Return (None, st, None)" by blast
  with sless_max [OF assms(2)] d show False by (simp add: body_absent)
qed

text \<open>
  Claim C1. Let the probe report the resource as absent (nil resource, empty state,
  nil error) on every call, and let the poll interval be non-zero, so that
  \<open>maxTicks = TimeoutSeconds() / SleepSeconds() + 1\<close> is computed. Then
  \<^verbatim>\<open>WaitForState\<close> returns the "couldn't find resource" error in the first pass in
  which the count of not-found polls exceeds \<open>maxTicks\<close> and in no earlier pass: after
  \<open>max 0 maxTicks + 1\<close> polls and \<open>max 0 maxTicks\<close> sleeps. When \<open>maxTicks\<close> is the
  largest \<^verbatim>\<open>int\<close> the count never exceeds it, and the run never returns.
\<close>

theorem never_found_fails_after_budget:
  assumes "\<forall>n. Refresh conf n = Return (None, [], None)"
    and "fst (SleepSeconds env) \<noteq> 0"
  shows "(sint (maxTicks env) < 2 ^ 63 - 1 \<longrightarrow>
            (\<exists>tr. WaitForState env conf =
                     Some (Return (None, Some (New (''couldn'' @ [CHR 0x27] @ ''t find resource''))), tr)
               \<and> polls tr = nat (sint (maxTicks env)) + 1
               \<and> sleeps tr = nat (sint (maxTicks env))
               \<and> sint (maxTicks env) < int (polls tr)
               \<and> (\<forall>p. 1 \<le> p \<and> p < polls tr \<longrightarrow> int p \<le> sint (maxTicks env))))
       \<and> (sint (maxTicks env) = 2 ^ 63 - 1 \<longrightarrow> WaitForState env conf = None)"
proof (intro conjI impI)
  assume m: "sint (maxTicks env) < 2 ^ 63 - 1"
  have "\<exists>tr. loop conf (fst (SleepSeconds env)) (maxTicks env) (start env conf) =
             Some (Return (None, Some (New couldnt_find)), tr) \<and>
           polls tr = polls (trace (start env conf)) + nat (sint (maxTicks env)) + 1 \<and>
           sleeps tr = sleeps (trace (start env conf)) + nat (sint (maxTicks env))"
  proof (rule absent_streak_returns)
    show "\<forall>n\<ge>calls (start env conf). \<exists>st. Refresh conf n = Return (None, st, None)"
      using assms(1) by simp
    show "sint (maxTicks env) < 2 ^ 63 - 1" by fact
    show "sint (notfoundTick (start env conf)) < 2 ^ 63 - 1" by (simp add: start_def)
    show "nat (sint (maxTicks env)) = nat (sint (maxTicks env) - sint (notfoundTick (start env conf)))"
      by (simp add: start_def)
  qed
  then have "\<exists>tr. WaitForState env conf = Some (Return (None, Some (New couldnt_find)), tr) \<and>
           polls tr = nat (sint (maxTicks env)) + 1 \<and> sleeps tr = nat (sint (maxTicks env))"
    by (simp add: WaitForState_loop [OF assms(2)])
  then obtain tr where
    "WaitForState env conf = Some (Return (None, Some (New couldnt_find)), tr)"
    "polls tr = nat (sint (maxTicks env)) + 1" "sleeps tr = nat (sint (maxTicks env))"
    by blast
  moreover from this(2) have "sint (maxTicks env) < int (polls tr)" by linarith
  moreover from \<open>polls tr = nat (sint (maxTicks env)) + 1\<close>
  have "\<forall>p. 1 \<le> p \<and> p < polls tr \<longrightarrow> int p \<le> sint (maxTicks env)" by auto
  ultimately show "\<exists>tr. WaitForState env conf =
                     Some (Return (None, Some (New (''couldn'' @ [CHR 0x27] @ ''t find resource''))), tr)
               \<and> polls tr = nat (sint (maxTicks env)) + 1
               \<and> sleeps tr = nat (sint (maxTicks env))
               \<and> sint (maxTicks env) < int (polls tr)
               \<and> (\<forall>p. 1 \<le> p \<and> p < polls tr \<longrightarrow> int p \<le> sint (maxTicks env))"
    by (auto simp: couldnt_find_def apostrophe_def)
next
  assume m: "sint (maxTicks env) = 2 ^ 63 - 1"
  have "loop conf (fst (SleepSeconds env)) (maxTicks env) (start env conf) = None"
    using assms(1) m by (intro absent_streak_diverges) simp_all
  then show "WaitForState env conf = None"
    by (simp add: WaitForState_loop [OF assms(2)])
qed

lemma huge_Sleep: "fst (SleepSeconds huge_timeout_env) = 1"
  by (simp add: SleepSeconds_def Getenv_def huge_timeout_env_def Atoi_def isDigit_def)

lemma huge_maxTicks: "maxTicks huge_timeout_env = 9223372036854775807"
  by (simp add: maxTicks_def SleepSeconds_def TimeoutSeconds_def Getenv_def huge_timeout_env_def
      Atoi_def isDigit_def go_div_def signed_divide_int_def)

theorem never_found_fails_after_budget_witness:
  "(\<forall>n. Refresh never_conf n = Return (None, [], None))
   \<and> fst (SleepSeconds Map.empty) \<noteq> 0
   \<and> sint (maxTicks Map.empty) < 2 ^ 63 - 1
   \<and> (\<exists>tr. WaitForState Map.empty never_conf =
              Some (Return (None, Some (New (''couldn'' @ [CHR 0x27] @ ''t find resource''))), tr)
         \<and> polls tr = 152 \<and> sleeps tr = 151)
   \<and> fst (SleepSeconds huge_timeout_env) \<noteq> 0
   \<and> sint (maxTicks huge_timeout_env) = 2 ^ 63 - 1
   \<and> WaitForState huge_timeout_env never_conf = None"
proof -
  have h1: "\<forall>n. Refresh never_conf n = Return (None, [], None)"
    by (simp add: never_conf_def)
  have h2: "fst (SleepSeconds Map.empty) \<noteq> 0"
    by (simp add: SleepSeconds_empty)
  have h3: "sint (maxTicks Map.empty) < 2 ^ 63 - 1"
    by (simp add: maxTicks_empty)
  have h4: "fst (SleepSeconds huge_timeout_env) \<noteq> 0"
    by (simp add: huge_Sleep)
  have h5: "sint (maxTicks huge_timeout_env) = 2 ^ 63 - 1"
    by (simp add: huge_maxTicks)
  from never_found_fails_after_budget [OF h1 h2] h3
  have a: "\<exists>tr. WaitForState Map.empty never_conf =
              Some (Return (None, Some (New (''couldn'' @ [CHR 0x27] @ ''t find resource''))), tr)
         \<and> polls tr = 152 \<and> sleeps tr = 151"
    by (auto simp: maxTicks_empty)
  from never_found_fails_after_budget [OF h1 h4] h5
  have b: "WaitForState huge_timeout_env never_conf = None" by blast
  from h1 h2 h3 a h4 h5 b show ?thesis by blast
qed

subsection \<open>Pending, then the target\<close>

lemma pending_passes:
  assumes "fst (SleepSeconds env) \<noteq> 0"
    and "\<forall>j<k. \<exists>r st. Refresh conf j = Return (Some r, st, None) \<and> st \<in> set (Pending conf) \<and>
           st \<noteq> Target conf \<and> \<not> cancelled_at conf j"
  shows "\<exists>s. enters env conf k s \<and> polls (trace s) = k \<and> sleeps (trace s) = k"
  using assms(2)
proof (induction k)
  case 0
  from enters_0 [OF assms(1)] show ?case by (intro exI [of _ "start env conf"]) simp
next
  case (Suc k)
  then obtain s where e: "enters env conf k s" and p: "polls (trace s) = k"
    and sl: "sleeps (trace s) = k"
    by auto
  from e have c: "calls s = k" by (rule enters_calls)
  from Suc.prems obtain r st where
    "Refresh conf k = Return (Some r, st, None)" "st \<in> set (Pending conf)"
    "st \<noteq> Target conf" "\<not> cancelled_at conf k"
    by blast
  with c have b: "body conf (fst (SleepSeconds env)) (maxTicks env) s =
      Continue \<lparr>notfoundTick = 0, calls = calls s + 1,
        trace = (trace s @ [RefreshCall (Some r, st, None)]
                 @ (case StepState conf of None \<Rightarrow> [] | Some _ \<Rightarrow> [GetOkCall False]))
                @ [Sleep (fst (SleepSeconds env) * 1000000000)]\<rparr>"
    by (simp add: body_not_cancelled found_iff Let_def)
  have "polls (trace s @ [RefreshCall (Some r, st, None)]
                 @ (case StepState conf of None \<Rightarrow> [] | Some _ \<Rightarrow> [GetOkCall False])
                 @ [Sleep (fst (SleepSeconds env) * 1000000000)]) = Suc k"
    and "sleeps (trace s @ [RefreshCall (Some r, st, None)]
                 @ (case StepState conf of None \<Rightarrow> [] | Some _ \<Rightarrow> [GetOkCall False])
                 @ [Sleep (fst (SleepSeconds env) * 1000000000)]) = Suc k"
    using p sl by (simp_all add: polls_def sleeps_def split: option.splits)
  with enters_Continue [OF e b] show ?case by force
qed

text \<open>
  Claim C2, as stated, fails: the request below has a probe that returns a pending
  state on its first call and the target on its second, yet the run returns the
  "interrupted" error after one poll, because the flag is set.
\<close>

theorem pending_then_target_counterexample:
  "Refresh pending_cancelled_conf 0 = Return (Some ''ami-1'', ''pending'', None)
   \<and> ''pending'' \<in> set (Pending pending_cancelled_conf)
   \<and> Refresh pending_cancelled_conf 1 = Return (Some ''ami-1'', Target pending_cancelled_conf, None)
   \<and> WaitForState Map.empty pending_cancelled_conf =
       Some (Return (None, Some (New ''interrupted'')),
             default_trace ''available''
               @ [RefreshCall (Some ''ami-1'', ''pending'', None), GetOkCall True])"
  by (simp add: pending_cancelled_conf_def WaitForState_loop SleepSeconds_empty maxTicks_empty
      start_empty loop_Done body_def)

text \<open>
  Claim C2, amended. Let the poll interval be non-zero. If on each of its first \<open>k\<close>
  calls the probe returns a non-nil resource in a state that is listed as pending
  and is not the target, the flag is not observed as set in those passes, and call
  \<open>k + 1\<close> returns \<open>(obj, Target, nil)\<close>, then \<^verbatim>\<open>WaitForState\<close> returns \<open>(obj, nil)\<close>
  after exactly \<open>k + 1\<close> polls and \<open>k\<close> sleeps. For \<open>k = 0\<close>: a probe that returns the
  target on its first call ends the wait after one poll and no sleep.
\<close>

theorem pending_then_target:
  assumes "fst (SleepSeconds env) \<noteq> 0"
    and "\<forall>j<k. \<exists>r st. Refresh conf j = Return (Some r, st, None) \<and> st \<in> set (Pending conf) \<and>
           st \<noteq> Target conf \<and> \<not> cancelled_at conf j"
    and "Refresh conf k = Return (Some obj, Target conf, None)"
  shows "\<exists>tr. WaitForState env conf = Some (Return (Some obj, None), tr) \<and>
           polls tr = k + 1 \<and> sleeps tr = k"
proof -
  from pending_passes [OF assms(1,2)] obtain s where
    e: "enters env conf k s" and p: "polls (trace s) = k" and sl: "sleeps (trace s) = k"
    by blast
  from e have "calls s = k" by (rule enters_calls)
  with assms(3) have
    "body conf (fst (SleepSeconds env)) (maxTicks env) s =
       Done (Return (Some obj, None), trace s @ [RefreshCall (Some obj, Target conf, None)])"
    by (simp add: body_target)
  with e have "WaitForState env conf =
       Some (Return (Some obj, None), trace s @ [RefreshCall (Some obj, Target conf, None)])"
    by (rule enters_Done)
  with p sl show ?thesis by (simp add: polls_def sleeps_def)
qed

theorem pending_then_target_witness:
  "fst (SleepSeconds Map.empty) \<noteq> 0
   \<and> Refresh pending_conf 0 = Return (Some ''ami-1'', ''pending'', None)
   \<and> Refresh pending_conf 1 = Return (Some ''ami-1'', ''pending'', None)
   \<and> ''pending'' \<in> set (Pending pending_conf)
   \<and> ''pending'' \<noteq> Target pending_conf
   \<and> \<not> cancelled_at pending_conf 0
   \<and> \<not> cancelled_at pending_conf 1
   \<and> Refresh pending_conf 2 = Return (Some ''ami-1'', Target pending_conf, None)
   \<and> (\<exists>tr. WaitForState Map.empty pending_conf = Some (Return (Some ''ami-1'', None), tr) \<and>
          polls tr = 3 \<and> sleeps tr = 2)"
proof -
  have h1: "fst (SleepSeconds Map.empty) \<noteq> 0"
    by (simp add: SleepSeconds_empty)
  have p: "Refresh pending_conf 0 = Return (Some ''ami-1'', ''pending'', None)"
    "Refresh pending_conf 1 = Return (Some ''ami-1'', ''pending'', None)"
    "''pending'' \<in> set (Pending pending_conf)"
    "''pending'' \<noteq> Target pending_conf"
    "\<not> cancelled_at pending_conf 0"
    "\<not> cancelled_at pending_conf 1"
    by (simp_all add: pending_conf_def cancelled_at_def)
  have h2: "\<forall>j<2. \<exists>r st. Refresh pending_conf j = Return (Some r, st, None) \<and>
          st \<in> set (Pending pending_conf) \<and> st \<noteq> Target pending_conf \<and>
          \<not> cancelled_at pending_conf j"
    using p by (auto simp: less_Suc_eq numeral_2_eq_2)
  have h3: "Refresh pending_conf 2 = Return (Some ''ami-1'', Target pending_conf, None)"
    by (simp add: pending_conf_def)
  from pending_then_target [OF h1 h2 h3] h1 p h3 show ?thesis by simp
qed

subsection \<open>The not-found counter\<close>

lemma enters_unique: "enters env conf k s \<Longrightarrow> enters env conf k s' \<Longrightarrow> s = s'"
  by (simp add: enters_def)

lemma body_Continue_cases:
  assumes "body conf sl m s = Continue s'"
  shows "(\<exists>st. Refresh conf (calls s) = Return (None, st, None) \<and> \<not> m <s notfoundTick s + 1 \<and>
            notfoundTick s' = notfoundTick s + 1)
         \<or> (\<exists>r st. Refresh conf (calls s) = Return (Some r, st, None) \<and> notfoundTick s' = 0)"
  using assms
  by (auto simp: body_def Let_def split: go.splits option.splits if_splits prod.splits)

lemma body_Continue_polls:
  "body conf sl m s = Continue s' \<Longrightarrow> polls (trace s') = Suc (polls (trace s))"
  by (auto simp: body_def Let_def polls_def split: go.splits option.splits if_splits prod.splits)

lemma body_couldnt_find:
  assumes "body conf sl m s = Done (Return (i, Some (New couldnt_find)), tr)"
  shows "i = None \<and> m <s notfoundTick s + 1 \<and>
         (\<exists>st. Refresh conf (calls s) = Return (None, st, None) \<and>
            tr = trace s @ [RefreshCall (None, st, None)])"
  using assms
  by (auto simp: body_def Let_def couldnt_find_def unexpected_state_def
      split: go.splits option.splits if_splits prod.splits)

lemma enters_polls: "enters env conf k s \<Longrightarrow> polls (trace s) = k"
proof (induction k arbitrary: s)
  case 0
  then show ?case by (auto simp: enters_def)
next
  case (Suc k)
  from enters_Suc [OF Suc.prems] obtain s0 where
    "enters env conf k s0" "body conf (fst (SleepSeconds env)) (maxTicks env) s0 = Continue s"
    by blast
  with Suc.IH [of s0] body_Continue_polls show ?case by metis
qed

text \<open>The counter is the length of the streak of not-found polls that ends just
  before the pass.\<close>

lemma enters_streak:
  assumes "enters env conf k s" and "sint (maxTicks env) < 2 ^ 63 - 1"
  shows "\<exists>L\<le>k. sint (notfoundTick s) = int L \<and> int L \<le> max 0 (sint (maxTicks env)) \<and>
           (\<forall>j. k - L \<le> j \<and> j < k \<longrightarrow> (\<exists>st. Refresh conf j = Return (None, st, None)))"
  using assms(1)
proof (induction k arbitrary: s)
  case 0
  then have "notfoundTick s = 0" by (auto simp: enters_def start_def)
  then show ?case by simp
next
  case (Suc k)
  from enters_Suc [OF Suc.prems] obtain s0 where
    e: "enters env conf k s0"
    and b: "body conf (fst (SleepSeconds env)) (maxTicks env) s0 = Continue s"
    by blast
  from e have c: "calls s0 = k" by (rule enters_calls)
  from Suc.IH [OF e] obtain L where L: "L \<le> k" "sint (notfoundTick s0) = int L"
    "int L \<le> max 0 (sint (maxTicks env))"
    "\<forall>j. k - L \<le> j \<and> j < k \<longrightarrow> (\<exists>st. Refresh conf j = Return (None, st, None))"
    by blast
  from body_Continue_cases [OF b] show ?case
  proof
    assume "\<exists>st. Refresh conf (calls s0) = Return (None, st, None) \<and>
       \<not> maxTicks env <s notfoundTick s0 + 1 \<and> notfoundTick s = notfoundTick s0 + 1"
    then obtain st where st: "Refresh conf k = Return (None, st, None)"
      and le: "\<not> maxTicks env <s notfoundTick s0 + 1"
      and nt: "notfoundTick s = notfoundTick s0 + 1"
      using c by auto
    from L(2,3) assms(2) have "sint (notfoundTick s0) < 2 ^ 63 - 1"
      by (auto simp: max_def split: if_splits)
    then have tick: "sint (notfoundTick s0 + 1) = int L + 1" using L(2) by (simp add: sint_succ)
    with le have "int L + 1 \<le> sint (maxTicks env)" by (simp add: word_sless_alt)
    moreover have "\<forall>j. Suc k - Suc L \<le> j \<and> j < Suc k \<longrightarrow>
        (\<exists>st. Refresh conf j = Return (None, st, None))"
      using L(4) st by (auto simp: less_Suc_eq)
    ultimately show ?thesis using L(1) tick nt
      by (intro exI [of _ "Suc L"]) simp
  next
    assume "\<exists>r st. Refresh conf (calls s0) = Return (Some r, st, None) \<and> notfoundTick s = 0"
    then show ?thesis by (intro exI [of _ 0]) auto
  qed
qed

text \<open>
  Claim C8. A pass in which the probe returns a non-nil resource and after which the
  loop goes on leaves the not-found counter at zero. Consequently, when
  \<^verbatim>\<open>WaitForState\<close> returns the "couldn't find resource" error, the polls of the run end
  with a streak of more than \<open>maxTicks\<close> consecutive not-found results: not-found
  results from before a poll that found the resource do not count. In the witness
  the budget is 2 and the probe answers absent, pending, absent, absent, absent: the
  run fails at the fifth poll, not at the fourth.
\<close>

theorem not_found_counter_reset:
  "(\<forall>k s s' r st. enters env conf k s \<and> Refresh conf k = Return (Some r, st, None) \<and>
      enters env conf (Suc k) s' \<longrightarrow> notfoundTick s' = 0)
   \<and> (\<forall>i tr. WaitForState env conf = Some (Return (i, Some (New couldnt_find)), tr) \<longrightarrow>
        (\<exists>L. sint (maxTicks env) < int L \<and> L \<le> polls tr \<and>
           (\<forall>j. polls tr - L \<le> j \<and> j < polls tr \<longrightarrow>
              (\<exists>st. Refresh conf j = Return (None, st, None)))))"
proof (intro conjI allI impI)
  fix k s s' r st
  assume a: "enters env conf k s \<and> Refresh conf k = Return (Some r, st, None) \<and>
      enters env conf (Suc k) s'"
  then obtain s0 where "enters env conf k s0"
    and "body conf (fst (SleepSeconds env)) (maxTicks env) s0 = Continue s'"
    using enters_Suc by blast
  with a have b: "body conf (fst (SleepSeconds env)) (maxTicks env) s = Continue s'"
    using enters_unique by blast
  from a have "calls s = k" by (blast dest: enters_calls)
  with a body_Continue_cases [OF b] show "notfoundTick s' = 0" by auto
next
  fix i tr
  assume "WaitForState env conf = Some (Return (i, Some (New couldnt_find)), tr)"
  then obtain k s where e: "enters env conf k s"
    and b: "body conf (fst (SleepSeconds env)) (maxTicks env) s =
              Done (Return (i, Some (New couldnt_find)), tr)"
    using WaitForState_Return_enters by blast
  from e have c: "calls s = k" by (rule enters_calls)
  from body_couldnt_find [OF b] c obtain st where
    lt: "maxTicks env <s notfoundTick s + 1"
    and st: "Refresh conf k = Return (None, st, None)"
    and tr: "tr = trace s @ [RefreshCall (None, st, None)]"
    by auto
  from tr enters_polls [OF e] have p: "polls tr = Suc k" by (simp add: polls_def)
  from lt sint_bounds(2) [of "notfoundTick s + 1"] have m: "sint (maxTicks env) < 2 ^ 63 - 1"
    by (simp add: word_sless_alt)
  from enters_streak [OF e m] obtain L where L: "L \<le> k" "sint (notfoundTick s) = int L"
    "int L \<le> max 0 (sint (maxTicks env))"
    "\<forall>j. k - L \<le> j \<and> j < k \<longrightarrow> (\<exists>st. Refresh conf j = Return (None, st, None))"
    by blast
  from L(2,3) m have "sint (notfoundTick s) < 2 ^ 63 - 1"
    by (auto simp: max_def split: if_splits)
  then have "sint (notfoundTick s + 1) = int L + 1" using L(2) by (simp add: sint_succ)
  with lt have "sint (maxTicks env) < int (Suc L)" by (simp add: word_sless_alt)
  moreover have "Suc L \<le> polls tr" using L(1) p by simp
  moreover have "\<forall>j. polls tr - Suc L \<le> j \<and> j < polls tr \<longrightarrow>
      (\<exists>st. Refresh conf j = Return (None, st, None))"
    using L(4) st p by (auto simp: less_Suc_eq)
  ultimately show "\<exists>L. sint (maxTicks env) < int L \<and> L \<le> polls tr \<and>
           (\<forall>j. polls tr - L \<le> j \<and> j < polls tr \<longrightarrow>
              (\<exists>st. Refresh conf j = Return (None, st, None)))"
    by blast
qed

lemma small_Sleep:
  "SleepSeconds small_budget_env =
     (2, [Printf ''Using %ds as polling delay (change with AWS_POLL_DELAY_SECONDS)'' [ArgD 2]])"
  by (simp add: SleepSeconds_def Getenv_def small_budget_env_def Atoi_def isDigit_def)

lemma small_Timeout:
  "TimeoutSeconds small_budget_env =
     (2, [Printf ''Allowing %ds to complete (change with AWS_TIMEOUT_SECONDS)'' [ArgD 2]])"
  by (simp add: TimeoutSeconds_def Getenv_def small_budget_env_def Atoi_def isDigit_def)

lemma small_maxTicks: "maxTicks small_budget_env = 2"
  by (simp add: maxTicks_def small_Sleep small_Timeout go_div_def signed_divide_int_def)

lemma small_start:
  "start small_budget_env conf =
     \<lparr>notfoundTick = 0, calls = 0, trace = small_budget_trace (Target conf)\<rparr>"
  by (simp add: start_def small_Sleep small_Timeout small_budget_trace_def)

lemma flapping_run:
  "WaitForState small_budget_env flapping_conf =
     Some (Return (None, Some (New couldnt_find)),
           small_budget_trace ''available''
             @ [RefreshCall (None, [], None), Sleep 2000000000,
                RefreshCall (Some ''ami-1'', ''pending'', None), Sleep 2000000000,
                RefreshCall (None, [], None), Sleep 2000000000,
                RefreshCall (None, [], None), Sleep 2000000000,
                RefreshCall (None, [], None)])"
proof -
  have c: "Refresh flapping_conf = (\<lambda>n. if n = 1 then Return (Some ''ami-1'', ''pending'', None)
                     else Return (None, [], None))"
    "Pending flapping_conf = [''pending'']" "StepState flapping_conf = None"
    "Target flapping_conf = ''available''"
    by (simp_all add: flapping_conf_def)
  show ?thesis
    by (simp add: WaitForState_loop small_Sleep small_maxTicks small_start
        loop.simps [of flapping_conf] body_def Let_def word_sless_alt c)
qed

theorem not_found_counter_reset_witness:
  "enters small_budget_env flapping_conf 1
     \<lparr>notfoundTick = 1, calls = 1,
      trace = small_budget_trace ''available'' @ [RefreshCall (None, [], None), Sleep 2000000000]\<rparr>
   \<and> Refresh flapping_conf 1 = Return (Some ''ami-1'', ''pending'', None)
   \<and> enters small_budget_env flapping_conf 2
       \<lparr>notfoundTick = 0, calls = 2,
        trace = small_budget_trace ''available''
                  @ [RefreshCall (None, [], None), Sleep 2000000000,
                     RefreshCall (Some ''ami-1'', ''pending'', None), Sleep 2000000000]\<rparr>
   \<and> WaitForState small_budget_env flapping_conf =
       Some (Return (None, Some (New couldnt_find)),
             small_budget_trace ''available''
               @ [RefreshCall (None, [], None), Sleep 2000000000,
                  RefreshCall (Some ''ami-1'', ''pending'', None), Sleep 2000000000,
                  RefreshCall (None, [], None), Sleep 2000000000,
                  RefreshCall (None, [], None), Sleep 2000000000,
                  RefreshCall (None, [], None)])
   \<and> (\<exists>L. sint (maxTicks small_budget_env) < int L \<and> L \<le> 5 \<and>
          (\<forall>j. 5 - L \<le> j \<and> j < 5 \<longrightarrow>
             (\<exists>st. Refresh flapping_conf j = Return (None, st, None))))"
proof -
  have c: "Refresh flapping_conf = (\<lambda>n. if n = 1 then Return (Some ''ami-1'', ''pending'', None)
                     else Return (None, [], None))"
    "Pending flapping_conf = [''pending'']" "StepState flapping_conf = None"
    "Target flapping_conf = ''available''"
    by (simp_all add: flapping_conf_def)
  have h1: "enters small_budget_env flapping_conf 1
     \<lparr>notfoundTick = 1, calls = 1,
      trace = small_budget_trace ''available'' @ [RefreshCall (None, [], None), Sleep 2000000000]\<rparr>"
    by (simp add: enters_def small_Sleep small_maxTicks small_start body_def Let_def
        word_sless_alt c)
  have h2: "Refresh flapping_conf 1 = Return (Some ''ami-1'', ''pending'', None)"
    by (simp add: c)
  have h3: "enters small_budget_env flapping_conf 2
       \<lparr>notfoundTick = 0, calls = 2,
        trace = small_budget_trace ''available''
                  @ [RefreshCall (None, [], None), Sleep 2000000000,
                     RefreshCall (Some ''ami-1'', ''pending'', None), Sleep 2000000000]\<rparr>"
    by (simp add: enters_def small_Sleep small_maxTicks small_start body_def Let_def
        word_sless_alt c numeral_2_eq_2)
  have h4: "WaitForState small_budget_env flapping_conf =
       Some (Return (None, Some (New couldnt_find)),
             small_budget_trace ''available''
               @ [RefreshCall (None, [], None), Sleep 2000000000,
                  RefreshCall (Some ''ami-1'', ''pending'', None), Sleep 2000000000,
                  RefreshCall (None, [], None), Sleep 2000000000,
                  RefreshCall (None, [], None), Sleep 2000000000,
                  RefreshCall (None, [], None)])"
    by (fact flapping_run)
  have p: "polls (small_budget_trace ''available''
               @ [RefreshCall (None, [], None), Sleep 2000000000,
                  RefreshCall (Some ''ami-1'', ''pending'', None), Sleep 2000000000,
                  RefreshCall (None, [], None), Sleep 2000000000,
                  RefreshCall (None, [], None), Sleep 2000000000,
                  RefreshCall (None, [], None :: string option)] :: (string, string) event list) = 5"
    by (simp add: polls_def small_budget_trace_def)
  from not_found_counter_reset [of small_budget_env flapping_conf] h4
  have "\<exists>L. sint (maxTicks small_budget_env) < int L \<and> L \<le> 5 \<and>
          (\<forall>j. 5 - L \<le> j \<and> j < 5 \<longrightarrow>
             (\<exists>st. Refresh flapping_conf j = Return (None, st, None)))"
    unfolding p [symmetric] by blast
  with h1 h2 h3 h4 show ?thesis by blast
qed

subsection \<open>The resource returned with an error\<close>

lemma body_error_cases:
  assumes "body conf sl m s = Done (Return (i, Some err), tr)"
  shows "(\<exists>msg. err = New msg \<and> i = None)
         \<or> (\<exists>e st. err = ProbeError e \<and> Refresh conf (calls s) = Return (i, st, Some e) \<and>
               tr = trace s @ [RefreshCall (i, st, Some e)])"
  using assms
  by (auto simp: body_def Let_def split: go.splits option.splits if_splits prod.splits)

text \<open>
  Claim C6, as stated, fails: a probe may return a non-nil resource together with a
  non-nil error, and the bare \<^verbatim>\<open>return\<close> of the error branch hands both back.
\<close>

theorem failure_resource_counterexample:
  "WaitForState Map.empty error_with_resource_conf =
     Some (Return (Some ''ami-1'', Some (ProbeError ''InternalError'')),
           default_trace ''available''
             @ [RefreshCall (Some ''ami-1'', ''failed'', Some ''InternalError'')])"
  by (simp add: error_with_resource_conf_def WaitForState_loop SleepSeconds_empty maxTicks_empty
      start_empty loop_Done body_def)

text \<open>
  Claim C6, amended. Whenever \<^verbatim>\<open>WaitForState\<close> returns a non-nil error, the error is
  either one the function created itself (not found, interrupted, unexpected
  state), and then the returned resource is nil, or it is the error of the last
  call of the probe, and then the returned resource is the one that call returned
  with it. So the returned resource is nil for every request whose probe returns no
  resource together with an error.
\<close>

theorem failure_resource:
  assumes "WaitForState env conf = Some (Return (i, Some err), tr)"
  shows "(\<forall>msg. err = New msg \<longrightarrow> i = None)
       \<and> (\<forall>e. err = ProbeError e \<longrightarrow>
             (\<exists>k st. Refresh conf k = Return (i, st, Some e) \<and> polls tr = Suc k))
       \<and> ((\<forall>k r st e. Refresh conf k \<noteq> Return (Some r, st, Some e)) \<longrightarrow> i = None)"
proof -
  from assms obtain k s where e: "enters env conf k s"
    and b: "body conf (fst (SleepSeconds env)) (maxTicks env) s =
              Done (Return (i, Some err), tr)"
    using WaitForState_Return_enters by blast
  from e have c: "calls s = k" by (rule enters_calls)
  from body_error_cases [OF b] show ?thesis
  proof
    assume "\<exists>msg. err = New msg \<and> i = None"
    then show ?thesis by auto
  next
    assume "\<exists>e st. err = ProbeError e \<and> Refresh conf (calls s) = Return (i, st, Some e) \<and>
               tr = trace s @ [RefreshCall (i, st, Some e)]"
    then obtain e' st where p: "err = ProbeError e'" "Refresh conf k = Return (i, st, Some e')"
      "tr = trace s @ [RefreshCall (i, st, Some e')]"
      using c by auto
    from p(3) enters_polls [OF e] have "polls tr = Suc k" by (simp add: polls_def)
    with p(1,2) show ?thesis by (cases i) auto
  qed
qed

theorem failure_resource_witness:
  "WaitForState Map.empty error_conf =
       Some (Return (None, Some (ProbeError ''RequestLimitExceeded'')),
             default_trace ''available''
               @ [RefreshCall (Some ''ami-1'', ''pending'', None), Sleep 2000000000,
                  RefreshCall (None, [], Some ''RequestLimitExceeded'')])
   \<and> (\<exists>k st. Refresh error_conf k = Return (None, st, Some ''RequestLimitExceeded'') \<and>
         polls (default_trace ''available''
               @ [RefreshCall (Some ''ami-1'', ''pending'', None), Sleep 2000000000,
                  RefreshCall (None, [], Some ''RequestLimitExceeded'')]
                :: (string, string) event list) = Suc k)"
proof -
  have c: "Refresh error_conf = (\<lambda>n. if n = 0 then Return (Some ''ami-1'', ''pending'', None)
                     else Return (None, [], Some ''RequestLimitExceeded''))"
    "Pending error_conf = [''pending'']" "StepState error_conf = None"
    "Target error_conf = ''available''"
    by (simp_all add: error_conf_def)
  have h: "WaitForState Map.empty error_conf =
       Some (Return (None, Some (ProbeError ''RequestLimitExceeded'')),
             default_trace ''available''
               @ [RefreshCall (Some ''ami-1'', ''pending'', None), Sleep 2000000000,
                  RefreshCall (None, [], Some ''RequestLimitExceeded'')])"
    by (simp add: WaitForState_loop SleepSeconds_empty maxTicks_empty start_empty
        loop.simps [of error_conf] body_def Let_def c)
  from failure_resource [OF h] h show ?thesis by blast
qed

subsection \<open>Resolving the two settings\<close>

lemma Atoi_examples:
  "Atoi ''10'' = Some 10" "Atoi ''abc'' = None" "Atoi ''-5'' = Some (- 5)" "Atoi ''0'' = Some 0"
  by (simp_all add: Atoi_def isDigit_def)

text \<open>
  Claim C7, as stated, fails: the overrides "-5" and "0" are not positive integers,
  yet \<^verbatim>\<open>strconv.Atoi\<close> accepts them and the functions return -5 and 0, without the
  diagnostic, instead of the default.
\<close>

theorem policy_resolution_counterexample:
  "SleepSeconds (poll_delay_env ''-5'') =
     (- 5, [Printf ''Using %ds as polling delay (change with AWS_POLL_DELAY_SECONDS)'' [ArgD (- 5)]])
   \<and> SleepSeconds (poll_delay_env ''0'') =
     (0, [Printf ''Using %ds as polling delay (change with AWS_POLL_DELAY_SECONDS)'' [ArgD 0]])
   \<and> TimeoutSeconds (timeout_env ''-5'') =
     (- 5, [Printf ''Allowing %ds to complete (change with AWS_TIMEOUT_SECONDS)'' [ArgD (- 5)]])"
  by (simp add: SleepSeconds_def TimeoutSeconds_def Getenv_def poll_delay_env_def timeout_env_def
      Atoi_examples)

text \<open>
  Claim C7, amended. \<^verbatim>\<open>SleepSeconds\<close> returns 2 when the override is absent or
  empty, and \<open>n\<close> when \<^verbatim>\<open>strconv.Atoi\<close> reads the override as the integer \<open>n\<close>, of
  any sign ("10" gives 10, "-5" gives -5, "0" gives 0); \<^verbatim>\<open>TimeoutSeconds\<close> returns
  300 when the override is absent or empty, and \<open>n\<close> likewise. For every override
  that \<^verbatim>\<open>Atoi\<close> rejects ("abc") the default is returned and the diagnostic line is
  logged before the usual one. With interval 2 and timeout 300, \<open>maxTicks\<close> is 151.
\<close>

theorem policy_resolution:
  "(Getenv env ''AWS_POLL_DELAY_SECONDS'' = [] \<longrightarrow>
      SleepSeconds env =
        (2, [Printf ''Using %ds as polling delay (change with AWS_POLL_DELAY_SECONDS)'' [ArgD 2]]))
   \<and> (\<forall>n. Atoi (Getenv env ''AWS_POLL_DELAY_SECONDS'') = Some n \<longrightarrow>
        SleepSeconds env =
          (n, [Printf ''Using %ds as polling delay (change with AWS_POLL_DELAY_SECONDS)'' [ArgD n]]))
   \<and> (Getenv env ''AWS_POLL_DELAY_SECONDS'' \<noteq> [] \<and>
      Atoi (Getenv env ''AWS_POLL_DELAY_SECONDS'') = None \<longrightarrow>
        SleepSeconds env =
          (2, [Printf (''Invalid sleep seconds '' @ [CHR 0x27] @ ''%s'' @ [CHR 0x27]
                         @ '', using default'') [ArgS (Getenv env ''AWS_POLL_DELAY_SECONDS'')],
               Printf ''Using %ds as polling delay (change with AWS_POLL_DELAY_SECONDS)'' [ArgD 2]]))
   \<and> (Getenv env ''AWS_TIMEOUT_SECONDS'' = [] \<longrightarrow>
        TimeoutSeconds env =
          (300, [Printf ''Allowing %ds to complete (change with AWS_TIMEOUT_SECONDS)'' [ArgD 300]]))
   \<and> (\<forall>n. Atoi (Getenv env ''AWS_TIMEOUT_SECONDS'') = Some n \<longrightarrow>
        TimeoutSeconds env =
          (n, [Printf ''Allowing %ds to complete (change with AWS_TIMEOUT_SECONDS)'' [ArgD n]]))
   \<and> (Getenv env ''AWS_TIMEOUT_SECONDS'' \<noteq> [] \<and>
      Atoi (Getenv env ''AWS_TIMEOUT_SECONDS'') = None \<longrightarrow>
        TimeoutSeconds env =
          (300, [Printf (''Invalid timeout seconds '' @ [CHR 0x27] @ ''%s'' @ [CHR 0x27]
                           @ '', using default'') [ArgS (Getenv env ''AWS_TIMEOUT_SECONDS'')],
                 Printf ''Allowing %ds to complete (change with AWS_TIMEOUT_SECONDS)'' [ArgD 300]]))
   \<and> Atoi ''10'' = Some 10 \<and> Atoi ''abc'' = None \<and> Atoi ''-5'' = Some (- 5) \<and> Atoi ''0'' = Some 0
   \<and> (fst (SleepSeconds env) = 2 \<and> fst (TimeoutSeconds env) = 300 \<longrightarrow> maxTicks env = 151)"
proof -
  have nonempty: "\<And>s n. Atoi s = Some n \<Longrightarrow> s \<noteq> []"
    by (auto simp: Atoi_def)
  have s1: "Getenv env ''AWS_POLL_DELAY_SECONDS'' = [] \<longrightarrow>
      SleepSeconds env =
        (2, [Printf ''Using %ds as polling delay (change with AWS_POLL_DELAY_SECONDS)'' [ArgD 2]])"
    by (simp add: SleepSeconds_def)
  have s2: "\<forall>n. Atoi (Getenv env ''AWS_POLL_DELAY_SECONDS'') = Some n \<longrightarrow>
        SleepSeconds env =
          (n, [Printf ''Using %ds as polling delay (change with AWS_POLL_DELAY_SECONDS)'' [ArgD n]])"
    using nonempty by (auto simp: SleepSeconds_def)
  have s3: "Getenv env ''AWS_POLL_DELAY_SECONDS'' \<noteq> [] \<and>
      Atoi (Getenv env ''AWS_POLL_DELAY_SECONDS'') = None \<longrightarrow>
        SleepSeconds env =
          (2, [Printf (''Invalid sleep seconds '' @ [CHR 0x27] @ ''%s'' @ [CHR 0x27]
                         @ '', using default'') [ArgS (Getenv env ''AWS_POLL_DELAY_SECONDS'')],
               Printf ''Using %ds as polling delay (change with AWS_POLL_DELAY_SECONDS)'' [ArgD 2]])"
    by (simp add: SleepSeconds_def apostrophe_def)
  have t1: "Getenv env ''AWS_TIMEOUT_SECONDS'' = [] \<longrightarrow>
        TimeoutSeconds env =
          (300, [Printf ''Allowing %ds to complete (change with AWS_TIMEOUT_SECONDS)'' [ArgD 300]])"
    by (simp add: TimeoutSeconds_def)
  have t2: "\<forall>n. Atoi (Getenv env ''AWS_TIMEOUT_SECONDS'') = Some n \<longrightarrow>
        TimeoutSeconds env =
          (n, [Printf ''Allowing %ds to complete (change with AWS_TIMEOUT_SECONDS)'' [ArgD n]])"
    using nonempty by (auto simp: TimeoutSeconds_def)
  have t3: "Getenv env ''AWS_TIMEOUT_SECONDS'' \<noteq> [] \<and>
      Atoi (Getenv env ''AWS_TIMEOUT_SECONDS'') = None \<longrightarrow>
        TimeoutSeconds env =
          (300, [Printf (''Invalid timeout seconds '' @ [CHR 0x27] @ ''%s'' @ [CHR 0x27]
                           @ '', using default'') [ArgS (Getenv env ''AWS_TIMEOUT_SECONDS'')],
                 Printf ''Allowing %ds to complete (change with AWS_TIMEOUT_SECONDS)'' [ArgD 300]])"
    by (simp add: TimeoutSeconds_def apostrophe_def)
  have m: "fst (SleepSeconds env) = 2 \<and> fst (TimeoutSeconds env) = 300 \<longrightarrow> maxTicks env = 151"
    by (simp add: maxTicks_def go_div_def signed_divide_int_def)
  from s1 s2 s3 t1 t2 t3 m Atoi_examples show ?thesis by blast
qed

theorem policy_resolution_witness:
  "Getenv Map.empty ''AWS_POLL_DELAY_SECONDS'' = []
   \<and> Getenv Map.empty ''AWS_TIMEOUT_SECONDS'' = []
   \<and> fst (SleepSeconds Map.empty) = 2 \<and> fst (TimeoutSeconds Map.empty) = 300
   \<and> maxTicks Map.empty = 151
   \<and> Atoi (Getenv (poll_delay_env ''10'') ''AWS_POLL_DELAY_SECONDS'') = Some 10
   \<and> SleepSeconds (poll_delay_env ''10'') =
       (10, [Printf ''Using %ds as polling delay (change with AWS_POLL_DELAY_SECONDS)'' [ArgD 10]])
   \<and> Getenv (poll_delay_env ''abc'') ''AWS_POLL_DELAY_SECONDS'' \<noteq> []
   \<and> Atoi (Getenv (poll_delay_env ''abc'') ''AWS_POLL_DELAY_SECONDS'') = None
   \<and> SleepSeconds (poll_delay_env ''abc'') =
       (2, [Printf (''Invalid sleep seconds '' @ [CHR 0x27] @ ''%s'' @ [CHR 0x27]
                      @ '', using default'') [ArgS ''abc''],
            Printf ''Using %ds as polling delay (change with AWS_POLL_DELAY_SECONDS)'' [ArgD 2]])
   \<and> Getenv (timeout_env ''abc'') ''AWS_TIMEOUT_SECONDS'' \<noteq> []
   \<and> Atoi (Getenv (timeout_env ''abc'') ''AWS_TIMEOUT_SECONDS'') = None
   \<and> fst (TimeoutSeconds (timeout_env ''abc'')) = 300
   \<and> Atoi (Getenv (timeout_env ''10'') ''AWS_TIMEOUT_SECONDS'') = Some 10
   \<and> fst (TimeoutSeconds (timeout_env ''10'')) = 10"
proof -
  have g: "Getenv Map.empty ''AWS_POLL_DELAY_SECONDS'' = []"
    "Getenv Map.empty ''AWS_TIMEOUT_SECONDS'' = []"
    "Getenv (poll_delay_env ''10'') ''AWS_POLL_DELAY_SECONDS'' = ''10''"
    "Getenv (poll_delay_env ''abc'') ''AWS_POLL_DELAY_SECONDS'' = ''abc''"
    "Getenv (timeout_env ''abc'') ''AWS_TIMEOUT_SECONDS'' = ''abc''"
    "Getenv (timeout_env ''10'') ''AWS_TIMEOUT_SECONDS'' = ''10''"
    by (simp_all add: Getenv_def poll_delay_env_def timeout_env_def)
  have a: "Atoi ''10'' = Some 10" "Atoi ''abc'' = None"
    by (simp_all add: Atoi_def isDigit_def)
  from policy_resolution [of Map.empty] g(1,2)
  have d: "fst (SleepSeconds Map.empty) = 2 \<and> fst (TimeoutSeconds Map.empty) = 300"
    by simp
  with policy_resolution [of Map.empty] have m: "maxTicks Map.empty = 151" by blast
  from policy_resolution [of "poll_delay_env ''10''"] g(3) a(1)
  have p10: "SleepSeconds (poll_delay_env ''10'') =
       (10, [Printf ''Using %ds as polling delay (change with AWS_POLL_DELAY_SECONDS)'' [ArgD 10]])"
    by simp
  from policy_resolution [of "poll_delay_env ''abc''"] g(4) a(2)
  have pabc: "SleepSeconds (poll_delay_env ''abc'') =
       (2, [Printf (''Invalid sleep seconds '' @ [CHR 0x27] @ ''%s'' @ [CHR 0x27]
                      @ '', using default'') [ArgS ''abc''],
            Printf ''Using %ds as polling delay (change with AWS_POLL_DELAY_SECONDS)'' [ArgD 2]])"
    by simp
  from policy_resolution [of "timeout_env ''abc''"] g(5) a(2)
  have tabc: "fst (TimeoutSeconds (timeout_env ''abc'')) = 300"
    by simp
  from policy_resolution [of "timeout_env ''10''"] g(6) a(1)
  have t10: "fst (TimeoutSeconds (timeout_env ''10'')) = 10"
    by simp
  from g a d m p10 pabc tabc t10 show ?thesis by simp
qed

text \<open>With the override "0" for the poll interval, the division that computes
  \<open>maxTicks\<close> panics before the first poll.\<close>

lemma zero_interval_panics:
  "WaitForState (poll_delay_env ''0'') conf =
     Some (Panic ''runtime error: integer divide by zero'',
           [Log (Printf ''Waiting for state to become: %s'' [ArgS (Target conf)]),
            Log (Printf ''Using %ds as polling delay (change with AWS_POLL_DELAY_SECONDS)''
                   [ArgD 0]),
            Log (Printf ''Allowing %ds to complete (change with AWS_TIMEOUT_SECONDS)''
                   [ArgD 300])])"
  by (simp add: WaitForState_def SleepSeconds_def TimeoutSeconds_def Getenv_def
      poll_delay_env_def Atoi_examples)

subsection \<open>The probe for image imports\<close>

lemma HasPrefix_iff: "HasPrefix s p \<longleftrightarrow> (\<exists>rest. s = p @ rest)"
proof
  assume "HasPrefix s p"
  then have "s = p @ drop (length p) s"
    by (metis HasPrefix_def append_take_drop_id)
  then show "\<exists>rest. s = p @ rest" ..
next
  assume "\<exists>rest. s = p @ rest"
  then show "HasPrefix s p" by (auto simp: HasPrefix_def)
qed

lemma ImportImageRefresh_absorbed:
  "absorbed e \<Longrightarrow> ImportImageRefresh (resp, Some e) = ([], Return (None, [], None))"
  unfolding absorbed_def
  by (cases "awsCode e")
    (auto simp: ImportImageRefresh_def HasPrefix_iff isTransientNetworkError_def)

lemma ImportImageRefresh_failed:
  "\<not> absorbed e \<Longrightarrow>
   ImportImageRefresh (resp, Some e) =
     ([Printf ''Error on ImportImageRefresh: %s'' [ArgS (ErrorMessage e)]],
      Return (None, [], Some e))"
  unfolding absorbed_def
  by (cases "awsCode e"; cases "netTemporary e")
    (auto simp: ImportImageRefresh_def HasPrefix_iff isTransientNetworkError_def)

text \<open>
  Claim C10. On a query error that is an AWS error whose code begins with
  \<^verbatim>\<open>InvalidConversionTaskId\<close> or a transient network error (a \<^verbatim>\<open>net.Error\<close> whose
  \<^verbatim>\<open>Temporary()\<close> is true), the probe built by \<^verbatim>\<open>ImportImageRefreshFunc\<close> returns the not-found triple \<open>(nil, "", nil)\<close> and logs
  nothing; on any other query error, a network error that is not temporary
  included, it logs the error and returns it. So in a pass
  of \<^verbatim>\<open>WaitForState\<close> whose query fails with an error of the first kind the not-found
  counter goes up by one and the wait goes on, or ends with "couldn't find resource"
  if the budget is exceeded; an error of the second kind ends the wait with that
  error.
\<close>

theorem import_probe_absorbs_errors:
  "(\<forall>resp e. absorbed e \<longrightarrow> ImportImageRefresh (resp, Some e) = ([], Return (None, [], None)))
   \<and> (\<forall>resp e. \<not> absorbed e \<longrightarrow>
         ImportImageRefresh (resp, Some e) =
           ([Printf ''Error on ImportImageRefresh: %s'' [ArgS (ErrorMessage e)]],
            Return (None, [], Some e)))
   \<and> (\<forall>env conf k s resp e.
         Refresh conf = ImportImageRefreshFunc conn importTaskId \<and> enters env conf k s \<and>
         conn [importTaskId] k = (resp, Some e) \<longrightarrow>
         (if absorbed e
          then (if maxTicks env <s notfoundTick s + 1
                then WaitForState env conf =
                       Some (Return (None, Some (New couldnt_find)),
                             trace s @ [RefreshCall (None, [], None)])
                else enters env conf (Suc k)
                       \<lparr>notfoundTick = notfoundTick s + 1, calls = Suc k,
                        trace = trace s @ [RefreshCall (None, [], None),
                                           Sleep (fst (SleepSeconds env) * 1000000000)]\<rparr>)
          else WaitForState env conf =
                 Some (Return (None, Some (ProbeError e)),
                       trace s @ [RefreshCall (None, [], Some e)])))"
proof (intro conjI allI impI)
  fix resp e
  assume "absorbed e"
  then show "ImportImageRefresh (resp, Some e) = ([], Return (None, [], None))"
    by (rule ImportImageRefresh_absorbed)
next
  fix resp e
  assume "\<not> absorbed e"
  then show "ImportImageRefresh (resp, Some e) =
           ([Printf ''Error on ImportImageRefresh: %s'' [ArgS (ErrorMessage e)]],
            Return (None, [], Some e))"
    by (rule ImportImageRefresh_failed)
next
  fix env and conf :: "(ImportImageTask, api_error) StateChangeConf" and k s resp e
  assume a: "Refresh conf = ImportImageRefreshFunc conn importTaskId \<and> enters env conf k s \<and>
         conn [importTaskId] k = (resp, Some e)"
  then have c: "calls s = k" by (blast dest: enters_calls)
  from a have en: "enters env conf k s" by blast
  show "if absorbed e
          then (if maxTicks env <s notfoundTick s + 1
                then WaitForState env conf =
                       Some (Return (None, Some (New couldnt_find)),
                             trace s @ [RefreshCall (None, [], None)])
                else enters env conf (Suc k)
                       \<lparr>notfoundTick = notfoundTick s + 1, calls = Suc k,
                        trace = trace s @ [RefreshCall (None, [], None),
                                           Sleep (fst (SleepSeconds env) * 1000000000)]\<rparr>)
          else WaitForState env conf =
                 Some (Return (None, Some (ProbeError e)),
                       trace s @ [RefreshCall (None, [], Some e)])"
  proof (cases "absorbed e")
    case True
    with a c have r: "Refresh conf (calls s) = Return (None, [], None)"
      by (simp add: ImportImageRefreshFunc_def ImportImageRefresh_absorbed)
    show ?thesis
    proof (cases "maxTicks env <s notfoundTick s + 1")
      case lt: True
      from body_absent [OF r, of "fst (SleepSeconds env)" "maxTicks env"] lt
      have "body conf (fst (SleepSeconds env)) (maxTicks env) s =
          Done (Return (None, Some (New couldnt_find)), trace s @ [RefreshCall (None, [], None)])"
        by simp
      from enters_Done [OF en this] True lt show ?thesis by simp
    next
      case ge: False
      from body_absent [OF r, of "fst (SleepSeconds env)" "maxTicks env"] ge c
      have "body conf (fst (SleepSeconds env)) (maxTicks env) s =
          Continue \<lparr>notfoundTick = notfoundTick s + 1, calls = Suc k,
                        trace = trace s @ [RefreshCall (None, [], None),
                                           Sleep (fst (SleepSeconds env) * 1000000000)]\<rparr>"
        by simp
      from enters_Continue [OF en this] True ge show ?thesis by simp
    qed
  next
    case False
    with a c have r: "Refresh conf (calls s) = Return (None, [], Some e)"
      by (simp add: ImportImageRefreshFunc_def ImportImageRefresh_failed)
    from body_probe_error [OF r, of "fst (SleepSeconds env)" "maxTicks env"]
    have "body conf (fst (SleepSeconds env)) (maxTicks env) s =
        Done (Return (None, Some (ProbeError e)), trace s @ [RefreshCall (None, [], Some e)])" .
    from enters_Done [OF en this] False show ?thesis by simp
  qed
qed

lemma absorbed_examples:
  "absorbed malformed_id_error" "absorbed timeout_error"
  "\<not> absorbed denied_error" "\<not> absorbed permanent_net_error"
  by (simp_all add: absorbed_def malformed_id_error_def timeout_error_def denied_error_def
      permanent_net_error_def)

theorem import_probe_absorbs_errors_witness:
  "absorbed malformed_id_error \<and> absorbed timeout_error
   \<and> \<not> absorbed denied_error \<and> \<not> absorbed permanent_net_error
   \<and> ImportImageRefresh (None, Some malformed_id_error) = ([], Return (None, [], None))
   \<and> ImportImageRefresh (None, Some timeout_error) = ([], Return (None, [], None))
   \<and> ImportImageRefresh (None, Some denied_error) =
       ([Printf ''Error on ImportImageRefresh: %s''
           [ArgS ''UnauthorizedOperation: status code: 403'']],
        Return (None, [], Some denied_error))
   \<and> ImportImageRefresh (None, Some permanent_net_error) =
       ([Printf ''Error on ImportImageRefresh: %s''
           [ArgS ''dial tcp: lookup ec2.amazonaws.com: no such host'']],
        Return (None, [], Some permanent_net_error))
   \<and> Refresh import_conf = ImportImageRefreshFunc failing_conn ''import-ami-1''
   \<and> enters Map.empty import_conf 0
       \<lparr>notfoundTick = 0, calls = 0, trace = default_trace ''completed''\<rparr>
   \<and> failing_conn [''import-ami-1''] 0 = (None, Some malformed_id_error)
   \<and> enters Map.empty import_conf 1
       \<lparr>notfoundTick = 1, calls = 1,
        trace = default_trace ''completed'' @ [RefreshCall (None, [], None), Sleep 2000000000]\<rparr>
   \<and> failing_conn [''import-ami-1''] 1 = (None, Some timeout_error)
   \<and> enters Map.empty import_conf 2
       \<lparr>notfoundTick = 2, calls = 2,
        trace = default_trace ''completed''
                  @ [RefreshCall (None, [], None), Sleep 2000000000,
                     RefreshCall (None, [], None), Sleep 2000000000]\<rparr>
   \<and> failing_conn [''import-ami-1''] 2 = (None, Some permanent_net_error)
   \<and> WaitForState Map.empty import_conf =
       Some (Return (None, Some (ProbeError permanent_net_error)),
             default_trace ''completed''
               @ [RefreshCall (None, [], None), Sleep 2000000000,
                  RefreshCall (None, [], None), Sleep 2000000000,
                  RefreshCall (None, [], Some permanent_net_error)])"
proof -
  have e1: "ImportImageRefresh (None, Some malformed_id_error) = ([], Return (None, [], None))"
    using import_probe_absorbs_errors absorbed_examples(1) by blast
  have e2: "ImportImageRefresh (None, Some timeout_error) = ([], Return (None, [], None))"
    using import_probe_absorbs_errors absorbed_examples(2) by blast
  have e3: "ImportImageRefresh (None, Some denied_error) =
       ([Printf ''Error on ImportImageRefresh: %s''
           [ArgS ''UnauthorizedOperation: status code: 403'']],
        Return (None, [], Some denied_error))"
    using import_probe_absorbs_errors [of failing_conn "''import-ami-1''"] absorbed_examples(3)
    by (simp add: denied_error_def)
  have e4: "ImportImageRefresh (None, Some permanent_net_error) =
       ([Printf ''Error on ImportImageRefresh: %s''
           [ArgS ''dial tcp: lookup ec2.amazonaws.com: no such host'']],
        Return (None, [], Some permanent_net_error))"
    using import_probe_absorbs_errors [of failing_conn "''import-ami-1''"] absorbed_examples(4)
    by (simp add: permanent_net_error_def)
  have r: "Refresh import_conf = ImportImageRefreshFunc failing_conn ''import-ami-1''"
    by (simp add: import_conf_def)
  have step: "if absorbed e
          then (if maxTicks Map.empty <s notfoundTick s + 1
                then WaitForState Map.empty import_conf =
                       Some (Return (None, Some (New couldnt_find)),
                             trace s @ [RefreshCall (None, [], None)])
                else enters Map.empty import_conf (Suc k)
                       \<lparr>notfoundTick = notfoundTick s + 1, calls = Suc k,
                        trace = trace s @ [RefreshCall (None, [], None),
                                           Sleep (fst (SleepSeconds Map.empty) * 1000000000)]\<rparr>)
          else WaitForState Map.empty import_conf =
                 Some (Return (None, Some (ProbeError e)),
                       trace s @ [RefreshCall (None, [], Some e)])"
    if "enters Map.empty import_conf k s" and "failing_conn [''import-ami-1''] k = (resp, Some e)"
    for k s resp e
    using import_probe_absorbs_errors [of failing_conn "''import-ami-1''"] r that by blast
  have h0: "enters Map.empty import_conf 0
       \<lparr>notfoundTick = 0, calls = 0, trace = default_trace ''completed''\<rparr>"
    by (simp add: enters_def SleepSeconds_empty start_empty import_conf_def)
  have c0: "failing_conn [''import-ami-1''] 0 = (None, Some malformed_id_error)"
    by (simp add: failing_conn_def)
  from step [OF h0 c0] have h1: "enters Map.empty import_conf 1
       \<lparr>notfoundTick = 1, calls = 1,
        trace = default_trace ''completed'' @ [RefreshCall (None, [], None), Sleep 2000000000]\<rparr>"
    by (simp add: absorbed_examples maxTicks_empty SleepSeconds_empty word_sless_alt)
  have c1: "failing_conn [''import-ami-1''] 1 = (None, Some timeout_error)"
    by (simp add: failing_conn_def)
  from step [OF h1 c1] have h2: "enters Map.empty import_conf 2
       \<lparr>notfoundTick = 2, calls = 2,
        trace = default_trace ''completed''
                  @ [RefreshCall (None, [], None), Sleep 2000000000,
                     RefreshCall (None, [], None), Sleep 2000000000]\<rparr>"
    by (simp add: absorbed_examples maxTicks_empty SleepSeconds_empty word_sless_alt
        numeral_2_eq_2)
  have c2: "failing_conn [''import-ami-1''] 2 = (None, Some permanent_net_error)"
    by (simp add: failing_conn_def)
  from step [OF h2 c2] have w: "WaitForState Map.empty import_conf =
       Some (Return (None, Some (ProbeError permanent_net_error)),
             default_trace ''completed''
               @ [RefreshCall (None, [], None), Sleep 2000000000,
                  RefreshCall (None, [], None), Sleep 2000000000,
                  RefreshCall (None, [], Some permanent_net_error)])"
    by (simp add: absorbed_examples)
  from absorbed_examples e1 e2 e3 e4 r h0 c0 h1 c1 h2 c2 w show ?thesis by blast
qed

end
